theory Spec2Isabelle
  imports Main
begin

section \<open>JavaScript values used by the gateway\<close>

text \<open>
  Strings are lists of code units; the model covers the code units below 256, so the
  white space removed by \<open>String.prototype.trim\<close> is TAB, LF, VT, FF, CR, SPACE and
  NBSP. A field that may be missing (\<open>undefined\<close>, or skipped by \<open>?.\<close>) is an
  \<open>option\<close>. \<open>console.log\<close> output is not modelled; \<open>console.error\<close> is an effect.
\<close>

definition truthy :: "string option \<Rightarrow> bool" where
  "truthy v = (case v of None \<Rightarrow> False | Some s \<Rightarrow> s \<noteq> [])"

definition is_space :: "char \<Rightarrow> bool" where
  "is_space c = (c \<in> {CHR 0x09, CHR 0x0A, CHR 0x0B, CHR 0x0C, CHR 0x0D, CHR 0x20, CHR 0xA0})"

definition trim :: "string \<Rightarrow> string" where
  "trim s = rev (dropWhile is_space (rev (dropWhile is_space s)))"

definition is_digit :: "char \<Rightarrow> bool" where
  "is_digit c = (c \<in> set ''0123456789'')"

section \<open>Destination normalisation\<close>

text \<open>
  \<open>toJid\<close> of the full server (and of its multi-file-auth variant). The library function
  \<open>jidNormalizedUser\<close> is not part of the repository and is a parameter.
\<close>

definition toJid :: "(string \<Rightarrow> string) \<Rightarrow> string \<Rightarrow> string" where
  "toJid jidNormalizedUser numberOrJid =
     (let raw = trim numberOrJid in
      if CHR ''@'' \<in> set raw then jidNormalizedUser raw
      else (let onlyDigits = filter is_digit raw in onlyDigits @ ''@s.whatsapp.net''))"

section \<open>Data model\<close>

text \<open>
  A message identifier is what \<open>result?.key?.id\<close> yields: a string, or \<open>undefined\<close>
  (\<open>None\<close>). Both \<open>Map\<close> and \<open>Set\<close> accept either as a key.
\<close>

type_synonym msg_id = "string option"

text \<open>The records of \<open>sentStore\<close> written by the two modelled send handlers:
  \<open>{type: 'text', payload: {to, message}}\<close> and \<open>{type: 'viewOnce', payload: {to, caption}}\<close>.\<close>

datatype outbound =
    TextRecord string string
  | ViewOnceRecord string "string option"

datatype media_kind = ImageKind | VideoKind | DocumentKind

text \<open>A buffer is kept symbolic: decoded from a base64 text, or the body of a fetched URL.\<close>

datatype buffer = FromBase64 string | FromResponse string

text \<open>The second argument of \<open>sock.sendMessage\<close>: \<open>{text}\<close>, or a media object with
  \<open>viewOnce: true\<close>, its buffer, caption and mimetype.\<close>

datatype content =
    TextContent string
  | ViewOnceContent media_kind buffer "string option" "string option"

record wa_key =
  k_remoteJid :: "string option"
  k_id :: "string option"
  k_fromMe :: "bool option"

text \<open>The fields of \<open>msg.message\<close> that \<open>serializeMessage\<close> reads: its key names in order,
  \<open>conversation\<close>, the \<open>text\<close> of \<open>extendedTextMessage\<close>, and the captions of
  \<open>imageMessage\<close> and \<open>videoMessage\<close> (outer \<open>None\<close>: the object is absent).\<close>

record imessage =
  m_keys :: "string list"
  m_conversation :: "string option"
  m_extendedText :: "string option"
  m_imageMessage :: "string option option"
  m_videoMessage :: "string option option"

record wa_message =
  msg_key :: "wa_key option"
  msg_pushName :: "string option"
  msg_messageTimestamp :: "nat option"
  msg_timestamp :: "nat option"
  msg_message :: "imessage option"

datatype summary = NoContent | TextSummary string | CaptionSummary "string option"

record envelope =
  e_id :: string
  e_jid :: string
  e_fromMe :: bool
  e_pushName :: string
  e_timestamp :: nat
  e_type :: string
  e_content :: summary

datatype payload = Envelope envelope | RawMessage wa_message

datatype err = Message string | TypeError | IOError | WebhookStatus nat | MediaStatus nat

datatype task = InitSocket

text \<open>Calls that leave the process, in the order they are made.\<close>

datatype effect =
    SockSendMessage string content
  | FetchMedia string
  | WebhookPost string payload
  | SaveState
  | PoolQuery string
  | SetTimeout task nat
  | ConsoleError string err

text \<open>
  The module-level variables of the server: \<open>connectionState\<close> (two fields),
  \<open>latestQRDataURL\<close> (\<open>latestPairingCode\<close> in the pairing-code server), \<open>sentStore\<close>,
  \<open>deleteOnDelivery\<close>, and the trace of effects.
\<close>

record gateway =
  authenticated :: bool
  connection :: string
  latestQRDataURL :: "string option"
  sentStore :: "msg_id \<rightharpoonup> outbound"
  deleteOnDelivery :: "msg_id set"
  effects :: "effect list"

definition init_gateway :: gateway where
  "init_gateway = \<lparr>authenticated = False, connection = ''close'', latestQRDataURL = None,
     sentStore = Map.empty, deleteOnDelivery = {}, effects = []\<rparr>"

section \<open>Connection manager\<close>

text \<open>A \<open>connection.update\<close> event: \<open>connection\<close>,
  \<open>(lastDisconnect?.error)?.output?.statusCode\<close> and \<open>qr\<close> (\<open>pairingCode\<close> in the
  pairing-code server).\<close>

record conn_update =
  u_connection :: "string option"
  u_statusCode :: "int option"
  u_qr :: "string option"

text \<open>\<open>if (qr) {...}\<close>. \<open>QRCode.toDataURL\<close> is a library call that may reject (\<open>None\<close>);
  the handler has no \<open>catch\<close>, so nothing after the \<open>await\<close> runs then.\<close>

definition on_qr :: "(string \<Rightarrow> string option) \<Rightarrow> gateway \<Rightarrow> string option \<Rightarrow> gateway option" where
  "on_qr toDataURL st qr =
     (case qr of
        None \<Rightarrow> Some st
      | Some q \<Rightarrow>
          if q = [] then Some st
          else (case toDataURL q of
                  None \<Rightarrow> None
                | Some url \<Rightarrow>
                    Some (st\<lparr>latestQRDataURL := Some url, authenticated := False,
                              connection := ''connecting''\<rparr>)))"

text \<open>\<open>if (connection) {...}\<close>.\<close>

definition on_connection :: "gateway \<Rightarrow> string option \<Rightarrow> int option \<Rightarrow> gateway" where
  "on_connection st conn statusCode =
     (case conn of
        None \<Rightarrow> st
      | Some c \<Rightarrow>
          if c = [] then st
          else (let st1 = st\<lparr>connection := c\<rparr> in
                if c = ''open'' then st1\<lparr>authenticated := True\<rparr>
                else if c = ''close'' then
                  (let shouldReconnect = (statusCode \<noteq> Some 401);
                       st2 = st1\<lparr>authenticated := False\<rparr>
                   in if shouldReconnect
                      then st2\<lparr>effects := effects st2 @ [SetTimeout InitSocket 2000]\<rparr>
                      else st2)
                else st1))"

definition on_connection_update :: "(string \<Rightarrow> string option) \<Rightarrow> gateway \<Rightarrow> conn_update \<Rightarrow> gateway" where
  "on_connection_update toDataURL st update =
     (case on_qr toDataURL st (u_qr update) of
        None \<Rightarrow> st
      | Some st1 \<Rightarrow> on_connection st1 (u_connection update) (u_statusCode update))"

text \<open>The handler of the pairing-code server (\<open>index.js\<close>) is the same code with the
  pairing code stored as it arrives.\<close>

definition on_connection_update_pairing :: "gateway \<Rightarrow> conn_update \<Rightarrow> gateway" where
  "on_connection_update_pairing st update = on_connection_update Some st update"

text \<open>\<open>GET /auth\<close> and its reply: the status code and the JSON body.\<close>

datatype reply =
    ErrorReply err
  | SentReply msg_id string
  | RemovedReply bool
  | AuthenticatedReply string
  | UnauthenticatedReply "string option"

type_synonym response = "nat \<times> reply"

definition get_auth :: "gateway \<Rightarrow> response" where
  "get_auth st =
     (if authenticated st then (200, AuthenticatedReply (connection st))
      else (200, UnauthenticatedReply (latestQRDataURL st)))"

section \<open>Outbound message tracker\<close>

text \<open>One element of a \<open>messages.update\<close> event: \<open>u.key?.id\<close> and \<open>u.update?.status\<close>.\<close>

record msg_update =
  upd_id :: msg_id
  upd_status :: "int option"

text \<open>The body of the loop of the \<open>messages.update\<close> handler, then the loop.\<close>

definition apply_update :: "gateway \<Rightarrow> msg_update \<Rightarrow> gateway" where
  "apply_update st u =
     (let id = upd_id u; status = upd_status u in
      if truthy id \<and> id \<in> deleteOnDelivery st \<and> (status = Some 3 \<or> status = Some 4)
      then st\<lparr>sentStore := (sentStore st)(id := None),
              deleteOnDelivery := deleteOnDelivery st - {id}\<rparr>
      else st)"

fun messages_update :: "gateway \<Rightarrow> msg_update list \<Rightarrow> gateway" where
  "messages_update st [] = st"
| "messages_update st (u # updates) = messages_update (apply_update st u) updates"

section \<open>Gateway API\<close>

text \<open>The fields the modelled handlers read from \<open>req.body\<close>; \<open>del\<close> is the truthiness
  of \<open>delete\<close>. \<open>no_body\<close> is the \<open>{}\<close> of \<open>req.body || {}\<close>.\<close>

record body =
  number :: "string option"
  jid :: "string option"
  message :: "string option"
  del :: bool
  messageId :: "string option"
  caption :: "string option"
  mediaUrl :: "string option"
  mediaBase64 :: "string option"
  mimetype :: "string option"

definition no_body :: body where
  "no_body = \<lparr>number = None, jid = None, message = None, del = False, messageId = None,
     caption = None, mediaUrl = None, mediaBase64 = None, mimetype = None\<rparr>"

definition body_or_empty :: "body option \<Rightarrow> body" where
  "body_or_empty b = (case b of None \<Rightarrow> no_body | Some x \<Rightarrow> x)"

text \<open>\<open>String(v)\<close> of a field.\<close>

definition str :: "string option \<Rightarrow> string" where
  "str v = (case v of None \<Rightarrow> ''undefined'' | Some s \<Rightarrow> s)"

text \<open>What \<open>await sock.sendMessage(...)\<close> does when it is called: it throws, it yields
  \<open>undefined\<close>, or it yields a message with an optional key.\<close>

datatype send_result = SendThrows string | SendUndefined | SendResult "wa_key option"

definition result_id :: "send_result \<Rightarrow> msg_id" where
  "result_id r = (case r of SendResult (Some k) \<Rightarrow> k_id k | _ \<Rightarrow> None)"

text \<open>\<open>POST /sendMessage\<close> of the full server.\<close>

definition sendMessage :: "(string \<Rightarrow> string) \<Rightarrow> gateway \<Rightarrow> body option \<Rightarrow> send_result \<Rightarrow> gateway \<times> response" where
  "sendMessage jidNormalizedUser st req_body engine =
     (let b = body_or_empty req_body in
      if \<not> truthy (message b) \<or> (\<not> truthy (number b) \<and> \<not> truthy (jid b))
      then (st, (400, ErrorReply (Message ''number/jid and message are required'')))
      else
        (let to = (if truthy (jid b) then toJid jidNormalizedUser (str (jid b))
                   else toJid jidNormalizedUser (str (number b)));
             st1 = st\<lparr>effects := effects st @ [SockSendMessage to (TextContent (str (message b)))]\<rparr>
         in case engine of
              SendThrows e \<Rightarrow> (st1, (500, ErrorReply (Message e)))
            | _ \<Rightarrow>
               (let id = result_id engine;
                    st2 = st1\<lparr>sentStore := (sentStore st1)(id \<mapsto> TextRecord to (str (message b)))\<rparr>;
                    st3 = (if del b then st2\<lparr>deleteOnDelivery := insert id (deleteOnDelivery st2)\<rparr>
                           else st2)
                in (st3, (200, SentReply id to)))))"

text \<open>\<open>POST /sendMessage\<close> of the pairing-code server (\<open>index.js\<close>): \<open>req.body\<close> is
  destructured as it is, only \<open>number\<close> names the destination, \<open>result.key.id\<close> is read
  without \<open>?.\<close>, and nothing is stored.\<close>

definition sendMessage_pairing :: "(string \<Rightarrow> string) \<Rightarrow> gateway \<Rightarrow> body option \<Rightarrow> send_result \<Rightarrow> gateway \<times> response" where
  "sendMessage_pairing jidNormalizedUser st req_body engine =
     (case req_body of
        None \<Rightarrow> (st, (500, ErrorReply TypeError))
      | Some b \<Rightarrow>
          if \<not> truthy (number b) \<or> \<not> truthy (message b)
          then (st, (400, ErrorReply (Message ''number and message required'')))
          else
            (let jid = jidNormalizedUser (filter is_digit (str (number b)) @ ''@s.whatsapp.net'');
                 st1 = st\<lparr>effects := effects st @ [SockSendMessage jid (TextContent (str (message b)))]\<rparr>
             in case engine of
                  SendThrows e \<Rightarrow> (st1, (500, ErrorReply (Message e)))
                | SendUndefined \<Rightarrow> (st1, (500, ErrorReply TypeError))
                | SendResult None \<Rightarrow> (st1, (500, ErrorReply TypeError))
                | SendResult (Some k) \<Rightarrow> (st1, (200, SentReply (k_id k) jid))))"

text \<open>\<open>POST /delete\<close>.\<close>

definition post_delete :: "gateway \<Rightarrow> body option \<Rightarrow> gateway \<times> response" where
  "post_delete st req_body =
     (let b = body_or_empty req_body in
      if \<not> truthy (messageId b)
      then (st, (400, ErrorReply (Message ''messageId required'')))
      else
        (let existed = (sentStore st (messageId b) \<noteq> None)
         in (st\<lparr>sentStore := (sentStore st)(messageId b := None),
                deleteOnDelivery := deleteOnDelivery st - {messageId b}\<rparr>,
             (200, RemovedReply existed))))"

text \<open>\<open>POST /sendViewOnceMedia\<close>. \<open>media\<close> is what \<open>fetch(mediaUrl)\<close> does when it is
  called: it throws, or it answers with a status and a body.\<close>

datatype fetch_result = FetchThrows string | FetchResponse nat string

definition res_ok :: "nat \<Rightarrow> bool" where
  "res_ok status = (200 \<le> status \<and> status \<le> 299)"

text \<open>\<open>mediaBase64.split(',').pop()\<close>: what follows the last comma.\<close>

definition last_segment :: "string \<Rightarrow> string" where
  "last_segment s = rev (takeWhile (\<lambda>c. c \<noteq> CHR '','') (rev s))"

definition startsWith :: "string \<Rightarrow> string \<Rightarrow> bool" where
  "startsWith s p = (take (length p) s = p)"

definition media_content :: "body \<Rightarrow> buffer \<Rightarrow> content" where
  "media_content b buf =
     (let mt = (if truthy (mimetype b) then str (mimetype b) else []);
          isImage = startsWith mt ''image/'';
          isVideo = startsWith mt ''video/''
      in if isImage then ViewOnceContent ImageKind buf (caption b) (mimetype b)
         else if isVideo then ViewOnceContent VideoKind buf (caption b) (mimetype b)
         else ViewOnceContent DocumentKind buf (caption b) (mimetype b))"

text \<open>From \<open>sock.sendMessage(to, content)\<close> to the reply.\<close>

definition send_media :: "gateway \<Rightarrow> body \<Rightarrow> string \<Rightarrow> buffer \<Rightarrow> send_result \<Rightarrow> gateway \<times> response" where
  "send_media st b to buf engine =
     (let st1 = st\<lparr>effects := effects st @ [SockSendMessage to (media_content b buf)]\<rparr>
      in case engine of
           SendThrows e \<Rightarrow> (st1, (500, ErrorReply (Message e)))
         | _ \<Rightarrow>
            (let id = result_id engine
             in (st1\<lparr>sentStore := (sentStore st1)(id \<mapsto> ViewOnceRecord to (caption b))\<rparr>,
                 (200, SentReply id to))))"

definition sendViewOnceMedia :: "(string \<Rightarrow> string) \<Rightarrow> gateway \<Rightarrow> body option \<Rightarrow> fetch_result \<Rightarrow> send_result \<Rightarrow> gateway \<times> response" where
  "sendViewOnceMedia jidNormalizedUser st req_body media engine =
     (let b = body_or_empty req_body in
      if (\<not> truthy (mediaUrl b) \<and> \<not> truthy (mediaBase64 b)) \<or> (\<not> truthy (number b) \<and> \<not> truthy (jid b))
      then (st, (400, ErrorReply (Message ''number/jid and media are required'')))
      else
        (let to = (if truthy (jid b) then toJid jidNormalizedUser (str (jid b))
                   else toJid jidNormalizedUser (str (number b)))
         in if truthy (mediaBase64 b)
            then send_media st b to (FromBase64 (last_segment (str (mediaBase64 b)))) engine
            else
              (let st1 = st\<lparr>effects := effects st @ [FetchMedia (str (mediaUrl b))]\<rparr>
               in case media of
                    FetchThrows e \<Rightarrow> (st1, (500, ErrorReply (Message e)))
                  | FetchResponse status bytes \<Rightarrow>
                      if \<not> res_ok status
                      then (st1, (400, ErrorReply (MediaStatus status)))
                      else send_media st1 b to (FromResponse bytes) engine)))"

section \<open>Auth store adapter\<close>

text \<open>What the file system and the database do during one \<open>creds.update\<close>:
  whether \<open>saveState()\<close> completes, what \<open>fs.readFileSync\<close> reads (\<open>None\<close>: it throws),
  and whether \<open>pool.query\<close> completes.\<close>

record creds_io =
  saveState_ok :: bool
  read_blob :: "string option"
  query_ok :: bool

text \<open>\<open>saveSessionToDB\<close>; \<open>pool\<close> is whether \<open>DATABASE_URL\<close> is set. The second
  component tells whether the call completed.\<close>

definition saveSessionToDB :: "bool \<Rightarrow> gateway \<Rightarrow> string \<Rightarrow> bool \<Rightarrow> gateway \<times> bool" where
  "saveSessionToDB pool st blob completes =
     (if \<not> pool then (st, True)
      else (st\<lparr>effects := effects st @ [PoolQuery blob]\<rparr>, completes))"

definition auth_save_error :: "gateway \<Rightarrow> gateway" where
  "auth_save_error st = st\<lparr>effects := effects st @ [ConsoleError ''[Auth save error]'' IOError]\<rparr>"

text \<open>\<open>saveStateAndDB\<close>, the \<open>creds.update\<close> handler of the full server.\<close>

definition saveStateAndDB :: "bool \<Rightarrow> gateway \<Rightarrow> creds_io \<Rightarrow> gateway" where
  "saveStateAndDB pool st io =
     (let st1 = st\<lparr>effects := effects st @ [SaveState]\<rparr> in
      if \<not> saveState_ok io then auth_save_error st1
      else (case read_blob io of
              None \<Rightarrow> auth_save_error st1
            | Some blob \<Rightarrow>
                (case saveSessionToDB pool st1 blob (query_ok io) of
                   (st2, completed) \<Rightarrow> if completed then st2 else auth_save_error st2)))"

text \<open>The \<open>creds.update\<close> handler of the pairing-code server: \<open>saveCreds\<close>, then the
  listing of the folder, then \<open>saveSessionToDB\<close>, with no \<open>catch\<close>.\<close>

definition creds_update_pairing :: "bool \<Rightarrow> gateway \<Rightarrow> creds_io \<Rightarrow> gateway" where
  "creds_update_pairing pool st io =
     (let st1 = st\<lparr>effects := effects st @ [SaveState]\<rparr> in
      if \<not> saveState_ok io then st1
      else (case read_blob io of
              None \<Rightarrow> st1
            | Some blob \<Rightarrow> fst (saveSessionToDB pool st1 blob (query_ok io))))"

section \<open>Inbound relay\<close>

definition or_empty :: "string option \<Rightarrow> string" where
  "or_empty v = (if truthy v then str v else [])"

definition or_number :: "nat option \<Rightarrow> nat \<Rightarrow> nat" where
  "or_number v d = (case v of None \<Rightarrow> d | Some n \<Rightarrow> if n = 0 then d else n)"

definition from_me :: "wa_message \<Rightarrow> bool" where
  "from_me msg = (case msg_key msg of None \<Rightarrow> False | Some k \<Rightarrow> k_fromMe k = Some True)"

text \<open>\<open>null\<close> stands for \<open>None\<close> in a caption.\<close>

definition caption_or_null :: "string option \<Rightarrow> string option" where
  "caption_or_null c = (if truthy c then c else None)"

definition message_content :: "imessage option \<Rightarrow> summary" where
  "message_content m =
     (case m of
        None \<Rightarrow> NoContent
      | Some x \<Rightarrow>
          if truthy (m_conversation x) then TextSummary (str (m_conversation x))
          else if truthy (m_extendedText x) then TextSummary (str (m_extendedText x))
          else (case m_imageMessage x of
                  Some c \<Rightarrow> CaptionSummary (caption_or_null c)
                | None \<Rightarrow>
                    (case m_videoMessage x of
                       Some c \<Rightarrow> CaptionSummary (caption_or_null c)
                     | None \<Rightarrow> NoContent)))"

definition message_type :: "imessage option \<Rightarrow> string" where
  "message_type m =
     (case m of
        None \<Rightarrow> ''unknown''
      | Some x \<Rightarrow> (case m_keys x of [] \<Rightarrow> ''unknown'' | k # _ \<Rightarrow> if k = [] then ''unknown'' else k))"

text \<open>\<open>serializeMessage\<close>; \<open>now\<close> is \<open>Date.now()\<close>.\<close>

definition serializeMessage :: "nat \<Rightarrow> wa_message \<Rightarrow> envelope" where
  "serializeMessage now msg =
     \<lparr>e_id = or_empty (case msg_key msg of None \<Rightarrow> None | Some k \<Rightarrow> k_id k),
      e_jid = or_empty (case msg_key msg of None \<Rightarrow> None | Some k \<Rightarrow> k_remoteJid k),
      e_fromMe = from_me msg,
      e_pushName = or_empty (msg_pushName msg),
      e_timestamp = or_number (msg_messageTimestamp msg) (or_number (msg_timestamp msg) now),
      e_type = message_type (msg_message msg),
      e_content = message_content (msg_message msg)\<rparr>"

text \<open>One inbound message, with the clock and with what \<open>fetch(WEBHOOK_URL, ...)\<close> does
  if it is called for it. Every call to the outside is taken to settle: it throws or it
  answers.\<close>

record inbound =
  in_msg :: wa_message
  in_now :: nat
  in_fetch :: fetch_result

definition forward_failed :: "gateway \<Rightarrow> err \<Rightarrow> gateway" where
  "forward_failed st e = st\<lparr>effects := effects st @ [ConsoleError ''[Webhook] forward failed'' e]\<rparr>"

text \<open>The body of the loop of the \<open>messages.upsert\<close> handler of the full server, then the
  loop.\<close>

definition forward :: "string \<Rightarrow> gateway \<Rightarrow> inbound \<Rightarrow> gateway" where
  "forward WEBHOOK_URL st i =
     (let msg = in_msg i; fromMe = from_me msg in
      if fromMe then st
      else if WEBHOOK_URL = [] then st
      else
        (let payload = serializeMessage (in_now i) msg;
             st1 = st\<lparr>effects := effects st @ [WebhookPost WEBHOOK_URL (Envelope payload)]\<rparr>
         in case in_fetch i of
              FetchThrows e \<Rightarrow> forward_failed st1 (Message e)
            | FetchResponse status bytes \<Rightarrow>
                if \<not> res_ok status then forward_failed st1 (WebhookStatus status) else st1))"

fun messages_upsert :: "string \<Rightarrow> gateway \<Rightarrow> inbound list \<Rightarrow> gateway" where
  "messages_upsert WEBHOOK_URL st [] = st"
| "messages_upsert WEBHOOK_URL st (i # msgs) = messages_upsert WEBHOOK_URL (forward WEBHOOK_URL st i) msgs"

text \<open>The same handler in the pairing-code server: the message is posted as it is and the
  response is not inspected.\<close>

definition forward_pairing :: "string \<Rightarrow> gateway \<Rightarrow> inbound \<Rightarrow> gateway" where
  "forward_pairing WEBHOOK_URL st i =
     (let msg = in_msg i in
      if from_me msg then st
      else if WEBHOOK_URL = [] then st
      else
        (let st1 = st\<lparr>effects := effects st @ [WebhookPost WEBHOOK_URL (RawMessage msg)]\<rparr>
         in case in_fetch i of
              FetchThrows e \<Rightarrow> st1\<lparr>effects := effects st1 @ [ConsoleError ''[Webhook] Error:'' (Message e)]\<rparr>
            | FetchResponse status bytes \<Rightarrow> st1))"

fun messages_upsert_pairing :: "string \<Rightarrow> gateway \<Rightarrow> inbound list \<Rightarrow> gateway" where
  "messages_upsert_pairing WEBHOOK_URL st [] = st"
| "messages_upsert_pairing WEBHOOK_URL st (i # msgs) =
     messages_upsert_pairing WEBHOOK_URL (forward_pairing WEBHOOK_URL st i) msgs"

section \<open>The gateway as a machine\<close>

text \<open>The configuration (\<open>WEBHOOK_URL\<close>, whether \<open>DATABASE_URL\<close> gave a pool) and the two
  library functions the handlers call.\<close>

record env =
  env_WEBHOOK_URL :: string
  env_pool :: bool
  env_jidNormalizedUser :: "string \<Rightarrow> string"
  env_toDataURL :: "string \<Rightarrow> string option"

text \<open>Everything that can happen to the full server, as far as it is modelled: the four
  engine events and four of the HTTP requests, each with what the outside world answers.
  Handlers run one at a time: each one changes the module-level variables only in stretches
  that no \<open>await\<close> interrupts.\<close>

datatype event =
    ConnectionUpdate conn_update
  | CredsUpdate creds_io
  | MessagesUpsert "inbound list"
  | MessagesUpdate "msg_update list"
  | GetAuth
  | PostSendMessage "body option" send_result
  | PostDelete "body option"
  | PostSendViewOnceMedia "body option" fetch_result send_result

fun gateway_step :: "env \<Rightarrow> gateway \<Rightarrow> event \<Rightarrow> gateway" where
  "gateway_step E st (ConnectionUpdate u) = on_connection_update (env_toDataURL E) st u"
| "gateway_step E st (CredsUpdate io) = saveStateAndDB (env_pool E) st io"
| "gateway_step E st (MessagesUpsert msgs) = messages_upsert (env_WEBHOOK_URL E) st msgs"
| "gateway_step E st (MessagesUpdate updates) = messages_update st updates"
| "gateway_step E st GetAuth = st"
| "gateway_step E st (PostSendMessage b r) = fst (sendMessage (env_jidNormalizedUser E) st b r)"
| "gateway_step E st (PostDelete b) = fst (post_delete st b)"
| "gateway_step E st (PostSendViewOnceMedia b m r) =
     fst (sendViewOnceMedia (env_jidNormalizedUser E) st b m r)"

definition run :: "env \<Rightarrow> gateway \<Rightarrow> event list \<Rightarrow> gateway" where
  "run E st evs = foldl (gateway_step E) st evs"

definition is_connection_update :: "event \<Rightarrow> bool" where
  "is_connection_update ev = (case ev of ConnectionUpdate u \<Rightarrow> True | _ \<Rightarrow> False)"

text \<open>The reconnects a trace has scheduled.\<close>

definition reconnects :: "effect list \<Rightarrow> effect list" where
  "reconnects tr = filter (\<lambda>e. case e of SetTimeout t d \<Rightarrow> True | _ \<Rightarrow> False) tr"

section \<open>Notions used in the statements\<close>

subsection \<open>The library's normalisation\<close>

text \<open>
  What \<open>toJid\<close> needs from \<open>jidNormalizedUser\<close>: on a trimmed text with an \<open>@\<close> its
  result keeps an \<open>@\<close>, is trimmed, and is a fixed point; and a canonical user address
  (digits, then \<open>@s.whatsapp.net\<close>) is a fixed point.
\<close>

definition jid_contract :: "(string \<Rightarrow> string) \<Rightarrow> bool" where
  "jid_contract N =
     ((\<forall>r. CHR ''@'' \<in> set r \<and> trim r = r \<longrightarrow>
            CHR ''@'' \<in> set (N r) \<and> trim (N r) = N r \<and> N (N r) = N r) \<and>
      (\<forall>d. (\<forall>c\<in>set d. is_digit c) \<longrightarrow> N (d @ ''@s.whatsapp.net'') = d @ ''@s.whatsapp.net''))"

text \<open>
  An instance of the parameter, after the library's published \<open>jidDecode\<close>, \<open>jidEncode\<close>
  and \<open>jidNormalizedUser\<close>: the text is cut at its first \<open>@\<close>, the user is what precedes
  the first \<open>:\<close> and the first \<open>_\<close>, and the server \<open>c.us\<close> becomes \<open>s.whatsapp.net\<close>.
\<close>

definition jidDecode :: "string \<Rightarrow> (string \<times> string) option" where
  "jidDecode a =
     (if CHR ''@'' \<notin> set a then None
      else (let server = tl (dropWhile (\<lambda>c. c \<noteq> CHR ''@'') a);
                userCombined = takeWhile (\<lambda>c. c \<noteq> CHR ''@'') a;
                userAgent = takeWhile (\<lambda>c. c \<noteq> CHR '':'') userCombined;
                user = takeWhile (\<lambda>c. c \<noteq> CHR ''_'') userAgent
            in Some (user, server)))"

definition jidEncode :: "string \<Rightarrow> string \<Rightarrow> string" where
  "jidEncode user server = user @ ''@'' @ server"

definition jidNormalizedUser :: "string \<Rightarrow> string" where
  "jidNormalizedUser a =
     (case jidDecode a of
        None \<Rightarrow> []
      | Some (user, server) \<Rightarrow> jidEncode user (if server = ''c.us'' then ''s.whatsapp.net'' else server))"

definition trimmed :: "string \<Rightarrow> bool" where
  "trimmed s = (s = [] \<or> (\<not> is_space (hd s) \<and> \<not> is_space (last s)))"

definition user_part :: "string \<Rightarrow> string" where
  "user_part u = takeWhile (\<lambda>c. c \<noteq> CHR ''_'') (takeWhile (\<lambda>c. c \<noteq> CHR '':'') u)"

definition server_part :: "string \<Rightarrow> string" where
  "server_part sv = (if sv = ''c.us'' then ''s.whatsapp.net'' else sv)"

subsection \<open>Delivery acknowledgments\<close>

text \<open>An event acknowledges \<open>j\<close> when \<open>j\<close> is a non-empty identifier, is armed, and one
  of the event's updates names it with status 3 or 4.\<close>

definition acked :: "gateway \<Rightarrow> msg_update list \<Rightarrow> msg_id \<Rightarrow> bool" where
  "acked st us j = (truthy j \<and> j \<in> deleteOnDelivery st \<and>
     (\<exists>u\<in>set us. upd_id u = j \<and> (upd_status u = Some 3 \<or> upd_status u = Some 4)))"

text \<open>The state after the record of \<open>i\<close> and its flag are gone.\<close>

definition without :: "gateway \<Rightarrow> msg_id \<Rightarrow> gateway" where
  "without st i = st\<lparr>sentStore := (sentStore st)(i := None),
                      deleteOnDelivery := deleteOnDelivery st - {i}\<rparr>"

subsection \<open>Projections of the trace\<close>

definition webhook_posts :: "effect list \<Rightarrow> effect list" where
  "webhook_posts tr = filter (\<lambda>e. case e of WebhookPost url p \<Rightarrow> True | _ \<Rightarrow> False) tr"

definition storage_calls :: "effect list \<Rightarrow> effect list" where
  "storage_calls tr =
     filter (\<lambda>e. case e of SaveState \<Rightarrow> True | PoolQuery blob \<Rightarrow> True | _ \<Rightarrow> False) tr"

definition remote_writes :: "effect list \<Rightarrow> effect list" where
  "remote_writes tr = filter (\<lambda>e. case e of PoolQuery blob \<Rightarrow> True | _ \<Rightarrow> False) tr"

text \<open>The storage calls one credential change leads to.\<close>

definition persisted :: "bool \<Rightarrow> creds_io \<Rightarrow> effect list" where
  "persisted pool io =
     SaveState # (if pool \<and> saveState_ok io
                  then (case read_blob io of None \<Rightarrow> [] | Some blob \<Rightarrow> [PoolQuery blob])
                  else [])"

text \<open>The pairing artifact a sequence of events leaves: the rendering of the last
  non-empty \<open>qr\<close> that rendered, or what was there before.\<close>

fun latest_artifact :: "(string \<Rightarrow> string option) \<Rightarrow> string option \<Rightarrow> event list \<Rightarrow> string option" where
  "latest_artifact toDataURL a [] = a"
| "latest_artifact toDataURL a (ConnectionUpdate u # evs) =
     latest_artifact toDataURL
       (case u_qr u of
          None \<Rightarrow> a
        | Some q \<Rightarrow> if q = [] then a else (case toDataURL q of None \<Rightarrow> a | Some url \<Rightarrow> Some url))
       evs"
| "latest_artifact toDataURL a (ev # evs) = latest_artifact toDataURL a evs"

text \<open>An event reports a connection value other than \<open>open\<close> and \<open>close\<close>.\<close>

definition reports_other :: "event \<Rightarrow> bool" where
  "reports_other ev =
     (case ev of
        ConnectionUpdate u \<Rightarrow>
          (case u_connection u of None \<Rightarrow> False | Some c \<Rightarrow> c \<noteq> [] \<and> c \<noteq> ''open'' \<and> c \<noteq> ''close'')
      | _ \<Rightarrow> False)"

text \<open>A sequence of events in which such a value is reported only while
  \<open>authenticated\<close> is false.\<close>

fun in_order :: "env \<Rightarrow> gateway \<Rightarrow> event list \<Rightarrow> bool" where
  "in_order E st [] = True"
| "in_order E st (ev # evs) =
     ((\<not> reports_other ev \<or> \<not> authenticated st) \<and> in_order E (gateway_step E st ev) evs)"

subsection \<open>Sample inputs\<close>

definition sample_toDataURL :: "string \<Rightarrow> string option" where
  "sample_toDataURL q = Some (''data:image/png;base64,'' @ q)"

definition sample_env :: env where
  "sample_env = \<lparr>env_WEBHOOK_URL = ''http://hook'', env_pool = True,
     env_jidNormalizedUser = jidNormalizedUser, env_toDataURL = sample_toDataURL\<rparr>"

definition ev_qr :: "string \<Rightarrow> event" where
  "ev_qr q = ConnectionUpdate \<lparr>u_connection = None, u_statusCode = None, u_qr = Some q\<rparr>"

definition ev_connection :: "string \<Rightarrow> event" where
  "ev_connection c = ConnectionUpdate \<lparr>u_connection = Some c, u_statusCode = None, u_qr = None\<rparr>"

definition closed_with :: "int \<Rightarrow> conn_update" where
  "closed_with code = \<lparr>u_connection = Some ''close'', u_statusCode = Some code, u_qr = None\<rparr>"

definition ev_close :: "int \<Rightarrow> event" where
  "ev_close code = ConnectionUpdate (closed_with code)"

definition opened :: gateway where
  "opened = foldl (gateway_step sample_env) init_gateway [ev_connection ''connecting'', ev_connection ''open'']"

definition sample_gateway :: gateway where
  "sample_gateway = init_gateway
     \<lparr>sentStore := [Some ''A1'' \<mapsto> TextRecord ''226700000@s.whatsapp.net'' ''hi'',
                    Some ''B2'' \<mapsto> TextRecord ''226700000@s.whatsapp.net'' ''ho''],
      deleteOnDelivery := {Some ''A1'', Some ''B2''}\<rparr>"

definition ack :: "string \<Rightarrow> int \<Rightarrow> msg_update" where
  "ack i s = \<lparr>upd_id = Some i, upd_status = Some s\<rparr>"

definition sample_message :: "bool \<Rightarrow> inbound" where
  "sample_message mine =
     \<lparr>in_msg = \<lparr>msg_key = Some \<lparr>k_remoteJid = Some ''226700000@s.whatsapp.net'', k_id = Some ''M1'',
                                k_fromMe = Some mine\<rparr>,
                msg_pushName = Some ''Awa'', msg_messageTimestamp = Some 1700000000,
                msg_timestamp = None,
                msg_message = Some \<lparr>m_keys = [''conversation''], m_conversation = Some ''salut'',
                                    m_extendedText = None, m_imageMessage = None,
                                    m_videoMessage = None\<rparr>\<rparr>,
      in_now = 1700000001, in_fetch = FetchResponse 500 []\<rparr>"

definition sample_creds_io :: creds_io where
  "sample_creds_io = \<lparr>saveState_ok = True, read_blob = Some ''{}'', query_ok = True\<rparr>"

definition view_once_request :: body where
  "view_once_request = no_body\<lparr>number := Some ''226700000'', del := True, caption := Some ''look'',
     mediaBase64 := Some ''data:image/png;base64,iVBORw0KGgo='', mimetype := Some ''image/png''\<rparr>"

definition engine_V1 :: send_result where
  "engine_V1 = SendResult (Some \<lparr>k_remoteJid = Some ''226700000@s.whatsapp.net'', k_id = Some ''V1'',
     k_fromMe = Some True\<rparr>)"

definition view_once_sent :: "gateway \<times> response" where
  "view_once_sent = sendViewOnceMedia jidNormalizedUser sample_gateway (Some view_once_request)
     (FetchThrows []) engine_V1"

section \<open>The outbound message tracker: proofs\<close>


lemma apply_update_frame:
  "authenticated (apply_update st u) = authenticated st"
  "connection (apply_update st u) = connection st"
  "latestQRDataURL (apply_update st u) = latestQRDataURL st"
  "effects (apply_update st u) = effects st"
  by (simp_all add: apply_update_def Let_def)

lemma messages_update_frame:
  "authenticated (messages_update st us) = authenticated st \<and>
   connection (messages_update st us) = connection st \<and>
   latestQRDataURL (messages_update st us) = latestQRDataURL st \<and>
   effects (messages_update st us) = effects st"
  by (induction us arbitrary: st) (simp_all add: apply_update_frame)

lemma acked_Nil: "acked st [] j = False"
  by (simp add: acked_def)

lemma acked_Cons: "acked st (u # us) j = (acked st [u] j \<or> acked st us j)"
  unfolding acked_def by auto

lemma apply_update_store:
  "sentStore (apply_update st u) j = (if acked st [u] j then None else sentStore st j)"
  unfolding acked_def apply_update_def Let_def by auto

lemma apply_update_flags:
  "(j \<in> deleteOnDelivery (apply_update st u)) = (j \<in> deleteOnDelivery st \<and> \<not> acked st [u] j)"
  unfolding acked_def apply_update_def Let_def by auto

lemma acked_apply_update:
  "acked (apply_update st u) us j = (acked st us j \<and> \<not> acked st [u] j)"
  using apply_update_flags [of j st u] unfolding acked_def by blast

lemma messages_update_store:
  "sentStore (messages_update st us) j = (if acked st us j then None else sentStore st j)"
proof (induction us arbitrary: st)
  case Nil
  show ?case by (simp add: acked_Nil)
next
  case (Cons u us)
  show ?case
    by (simp add: Cons.IH acked_apply_update apply_update_store acked_Cons [of st u us j])
qed

lemma messages_update_flags:
  "(j \<in> deleteOnDelivery (messages_update st us)) = (j \<in> deleteOnDelivery st \<and> \<not> acked st us j)"
proof (induction us arbitrary: st)
  case Nil
  show ?case by (simp add: acked_Nil)
next
  case (Cons u us)
  show ?case
    by (auto simp add: Cons.IH acked_apply_update apply_update_flags acked_Cons [of st u us j])
qed


text \<open>
  C1. For every message identifier \<open>i\<close> (a non-empty string) and every
  \<open>messages.update\<close> event: if \<open>i\<close> is in the delete-on-delivery set and the event
  reports status 3 (delivered) or 4 (read) for it, the record of \<open>i\<close> is removed from
  the sent store and \<open>i\<close> leaves the set; if every status the event reports for \<open>i\<close> is
  another one, the record and the membership of \<open>i\<close> are as before; and the record and
  the membership of an identifier the event does not name are as before.
\<close>

theorem delivery_ack_deletes_armed_record:
  "(truthy i \<and> i \<in> deleteOnDelivery st \<and>
      (\<exists>u\<in>set us. upd_id u = i \<and> (upd_status u = Some 3 \<or> upd_status u = Some 4)) \<longrightarrow>
        sentStore (messages_update st us) i = None \<and> i \<notin> deleteOnDelivery (messages_update st us))
   \<and> ((\<forall>u\<in>set us. upd_id u = i \<longrightarrow> upd_status u \<noteq> Some 3 \<and> upd_status u \<noteq> Some 4) \<longrightarrow>
        sentStore (messages_update st us) i = sentStore st i \<and>
        (i \<in> deleteOnDelivery (messages_update st us)) = (i \<in> deleteOnDelivery st))
   \<and> ((\<forall>u\<in>set us. upd_id u \<noteq> j) \<longrightarrow>
        sentStore (messages_update st us) j = sentStore st j \<and>
        (j \<in> deleteOnDelivery (messages_update st us)) = (j \<in> deleteOnDelivery st))"
proof (intro conjI impI)
  assume a: "truthy i \<and> i \<in> deleteOnDelivery st \<and>
      (\<exists>u\<in>set us. upd_id u = i \<and> (upd_status u = Some 3 \<or> upd_status u = Some 4))"
  then have "acked st us i" unfolding acked_def .
  then show "sentStore (messages_update st us) i = None"
    and "i \<notin> deleteOnDelivery (messages_update st us)"
    by (simp_all add: messages_update_store messages_update_flags)
next
  assume "\<forall>u\<in>set us. upd_id u = i \<longrightarrow> upd_status u \<noteq> Some 3 \<and> upd_status u \<noteq> Some 4"
  then have "\<not> acked st us i" unfolding acked_def by blast
  then show "sentStore (messages_update st us) i = sentStore st i"
    and "(i \<in> deleteOnDelivery (messages_update st us)) = (i \<in> deleteOnDelivery st)"
    by (simp_all add: messages_update_store messages_update_flags)
next
  assume "\<forall>u\<in>set us. upd_id u \<noteq> j"
  then have "\<not> acked st us j" unfolding acked_def by blast
  then show "sentStore (messages_update st us) j = sentStore st j"
    and "(j \<in> deleteOnDelivery (messages_update st us)) = (j \<in> deleteOnDelivery st)"
    by (simp_all add: messages_update_store messages_update_flags)
qed

theorem delivery_ack_deletes_armed_record_witness:
  "truthy (Some ''A1'') \<and> Some ''A1'' \<in> deleteOnDelivery sample_gateway \<and>
   sentStore sample_gateway (Some ''A1'') \<noteq> None \<and>
   sentStore (messages_update sample_gateway [ack ''A1'' 3, ack ''B2'' 2]) (Some ''A1'') = None \<and>
   Some ''A1'' \<notin> deleteOnDelivery (messages_update sample_gateway [ack ''A1'' 3, ack ''B2'' 2]) \<and>
   sentStore (messages_update sample_gateway [ack ''A1'' 3, ack ''B2'' 2]) (Some ''B2'') =
     Some (TextRecord ''226700000@s.whatsapp.net'' ''ho'') \<and>
   Some ''B2'' \<in> deleteOnDelivery (messages_update sample_gateway [ack ''A1'' 3, ack ''B2'' 2])"
proof -
  let ?us = "[ack ''A1'' 3, ack ''B2'' 2]"
  have h1: "truthy (Some ''A1'') \<and> Some ''A1'' \<in> deleteOnDelivery sample_gateway \<and>
      (\<exists>u\<in>set ?us. upd_id u = Some ''A1'' \<and> (upd_status u = Some 3 \<or> upd_status u = Some 4))"
    by (simp add: truthy_def sample_gateway_def init_gateway_def ack_def)
  have h2: "\<forall>u\<in>set ?us. upd_id u = Some ''B2'' \<longrightarrow> upd_status u \<noteq> Some 3 \<and> upd_status u \<noteq> Some 4"
    by (simp add: ack_def)
  have s: "sentStore sample_gateway (Some ''A1'') \<noteq> None"
    "sentStore sample_gateway (Some ''B2'') = Some (TextRecord ''226700000@s.whatsapp.net'' ''ho'')"
    "Some ''B2'' \<in> deleteOnDelivery sample_gateway"
    by (simp_all add: sample_gateway_def init_gateway_def)
  from delivery_ack_deletes_armed_record [of "Some ''A1''" sample_gateway ?us] h1
  have c1: "sentStore (messages_update sample_gateway ?us) (Some ''A1'') = None \<and>
      Some ''A1'' \<notin> deleteOnDelivery (messages_update sample_gateway ?us)" by blast
  from delivery_ack_deletes_armed_record [of "Some ''B2''" sample_gateway ?us] h2
  have c2: "sentStore (messages_update sample_gateway ?us) (Some ''B2'') = sentStore sample_gateway (Some ''B2'') \<and>
      (Some ''B2'' \<in> deleteOnDelivery (messages_update sample_gateway ?us)) = (Some ''B2'' \<in> deleteOnDelivery sample_gateway)"
    by blast
  from h1 s c1 c2 show ?thesis by simp
qed

lemma post_delete_eq:
  assumes "truthy i" and "messageId (body_or_empty b) = i"
  shows "post_delete st b = (without st i, (200, RemovedReply (sentStore st i \<noteq> None)))"
  using assms by (simp add: post_delete_def without_def Let_def)

lemma messages_update_single:
  "messages_update st [u] = (if acked st [u] (upd_id u) then without st (upd_id u) else st)"
  by (auto simp add: apply_update_def acked_def without_def Let_def)

lemma without_without: "without (without st i) i = without st i"
  by (simp add: without_def)

lemma without_fields [simp]:
  "sentStore (without st i) i = None" "i \<notin> deleteOnDelivery (without st i)"
  by (simp_all add: without_def)

lemma not_acked_without: "\<not> acked (without st i) us i"
  by (simp add: acked_def)

text \<open>
  C5. For every message identifier \<open>i\<close> (a non-empty string) with a record, explicit
  deletion (\<open>POST /delete\<close>) and delivery-triggered deletion (a \<open>messages.update\<close> for
  \<open>i\<close>) remove the record once, in either order. Deletion first: it reports
  \<open>removed: true\<close> and the acknowledgment then changes nothing. Acknowledgment first: if it
  removes the record, the deletion reports \<open>removed: false\<close>; if it does not, the deletion
  removes it and reports \<open>removed: true\<close>. Both orders end in the same state, a further
  deletion reports \<open>removed: false\<close>, and a deletion of an identifier with no record
  reports \<open>removed: false\<close> and still clears its flag.
\<close>

theorem explicit_and_delivery_deletion_once:
  assumes "truthy i" and "messageId (body_or_empty b) = i" and "upd_id u = i"
    and "sentStore st i \<noteq> None"
  shows "post_delete st b = (without st i, (200, RemovedReply True))
    \<and> messages_update (without st i) [u] = without st i
    \<and> (acked st [u] i \<longrightarrow>
          messages_update st [u] = without st i \<and>
          post_delete (messages_update st [u]) b = (without st i, (200, RemovedReply False)))
    \<and> (\<not> acked st [u] i \<longrightarrow>
          messages_update st [u] = st \<and>
          post_delete (messages_update st [u]) b = (without st i, (200, RemovedReply True)))
    \<and> post_delete (without st i) b = (without st i, (200, RemovedReply False))
    \<and> (sentStore st' i = None \<longrightarrow>
          snd (post_delete st' b) = (200, RemovedReply False) \<and>
          i \<notin> deleteOnDelivery (fst (post_delete st' b)))"
proof -
  note d = post_delete_eq [OF assms(1,2)]
  have 1: "post_delete st b = (without st i, (200, RemovedReply True))"
    using assms(4) by (simp add: d)
  have 2: "messages_update (without st i) [u] = without st i"
    unfolding messages_update_single assms(3) by (simp add: not_acked_without)
  have 3: "messages_update st [u] = (if acked st [u] i then without st i else st)"
    unfolding messages_update_single assms(3) ..
  have 4: "post_delete (without st i) b = (without st i, (200, RemovedReply False))"
    by (simp add: d without_without)
  have 5: "sentStore st' i = None \<longrightarrow>
          snd (post_delete st' b) = (200, RemovedReply False) \<and>
          i \<notin> deleteOnDelivery (fst (post_delete st' b))"
    by (simp add: d)
  from 1 2 3 4 5 show ?thesis by simp
qed

theorem explicit_and_delivery_deletion_once_witness:
  "truthy (Some ''A1'') \<and> sentStore sample_gateway (Some ''A1'') \<noteq> None \<and>
   acked sample_gateway [ack ''A1'' 4] (Some ''A1'') \<and>
   snd (post_delete sample_gateway (Some (no_body\<lparr>messageId := Some ''A1''\<rparr>))) = (200, RemovedReply True) \<and>
   fst (post_delete sample_gateway (Some (no_body\<lparr>messageId := Some ''A1''\<rparr>))) =
     fst (post_delete (messages_update sample_gateway [ack ''A1'' 4]) (Some (no_body\<lparr>messageId := Some ''A1''\<rparr>))) \<and>
   snd (post_delete (messages_update sample_gateway [ack ''A1'' 4]) (Some (no_body\<lparr>messageId := Some ''A1''\<rparr>)))
     = (200, RemovedReply False)"
proof -
  let ?b = "Some (no_body\<lparr>messageId := Some ''A1''\<rparr>)"
  have h: "truthy (Some ''A1'')" "messageId (body_or_empty ?b) = Some ''A1''"
    "upd_id (ack ''A1'' 4) = Some ''A1''" "sentStore sample_gateway (Some ''A1'') \<noteq> None"
    by (simp_all add: truthy_def body_or_empty_def no_body_def ack_def sample_gateway_def init_gateway_def)
  have a: "acked sample_gateway [ack ''A1'' 4] (Some ''A1'')"
    by (simp add: acked_def truthy_def ack_def sample_gateway_def init_gateway_def)
  from explicit_and_delivery_deletion_once [OF h, of sample_gateway] a h(1,4) show ?thesis by simp
qed

lemma send_media_ok:
  assumes "send_media st b to buf r = (st', (200, reply))"
  shows "reply = SentReply (result_id r) to
    \<and> deleteOnDelivery st' = deleteOnDelivery st
    \<and> sentStore st' = (sentStore st)(result_id r \<mapsto> ViewOnceRecord to (caption b))"
  using assms by (auto simp: send_media_def Let_def split: send_result.splits)

lemma sendViewOnceMedia_ok:
  assumes "sendViewOnceMedia N st b m r = (st', (200, reply))"
  shows "\<exists>to. reply = SentReply (result_id r) to
    \<and> deleteOnDelivery st' = deleteOnDelivery st
    \<and> sentStore st' = (sentStore st)(result_id r \<mapsto> ViewOnceRecord to (caption (body_or_empty b)))"
proof -
  let ?x = "body_or_empty b"
  from assms obtain s to buf where "send_media s ?x to buf r = (st', (200, reply))"
    and "deleteOnDelivery s = deleteOnDelivery st" and "sentStore s = sentStore st"
    unfolding sendViewOnceMedia_def Let_def
    by (auto split: if_splits fetch_result.splits)
  with send_media_ok [of s ?x to buf r st' reply] show ?thesis by auto
qed


lemma media_content_ignores_delete: "media_content (x\<lparr>del := d\<rparr>) buf = media_content x buf"
  by (simp add: media_content_def Let_def)

lemma send_media_ignores_delete: "send_media st (x\<lparr>del := d\<rparr>) to buf r = send_media st x to buf r"
  by (simp add: send_media_def media_content_ignores_delete Let_def split: send_result.split)

lemma sendViewOnceMedia_ignores_delete:
  "sendViewOnceMedia N st (Some (x\<lparr>del := d\<rparr>)) m r = sendViewOnceMedia N st (Some x) m r"
  by (simp add: sendViewOnceMedia_def send_media_ignores_delete body_or_empty_def Let_def
      split: fetch_result.split)

text \<open>
  C10. For every successful \<open>POST /sendViewOnceMedia\<close> request (status 200): the
  delete-on-delivery set is unchanged; the sent store gains the view-once record under the
  identifier the engine assigned; the same request with \<open>delete: true\<close> has the same
  outcome; and, the identifier being new to the flag set, no later \<open>messages.update\<close>
  event removes the record, whatever status it reports.
\<close>

theorem view_once_never_armed:
  assumes "sendViewOnceMedia N st b m r = (st', (200, reply))"
  shows "deleteOnDelivery st' = deleteOnDelivery st
    \<and> (\<exists>to. reply = SentReply (result_id r) to \<and>
          sentStore st' = (sentStore st)(result_id r \<mapsto> ViewOnceRecord to (caption (body_or_empty b))))
    \<and> sendViewOnceMedia N st (Some ((body_or_empty b)\<lparr>del := True\<rparr>)) m r = (st', (200, reply))
    \<and> (result_id r \<notin> deleteOnDelivery st \<longrightarrow>
          sentStore (messages_update st' us) (result_id r) = sentStore st' (result_id r) \<and>
          sentStore st' (result_id r) \<noteq> None)"
proof -
  from sendViewOnceMedia_ok [OF assms] obtain to where
    1: "reply = SentReply (result_id r) to" and 2: "deleteOnDelivery st' = deleteOnDelivery st"
    and 3: "sentStore st' = (sentStore st)(result_id r \<mapsto> ViewOnceRecord to (caption (body_or_empty b)))"
    by blast
  have "sendViewOnceMedia N st (Some (body_or_empty b)) m r = sendViewOnceMedia N st b m r"
    by (simp add: sendViewOnceMedia_def body_or_empty_def)
  then have 4: "sendViewOnceMedia N st (Some ((body_or_empty b)\<lparr>del := True\<rparr>)) m r = (st', (200, reply))"
    using assms by (simp add: sendViewOnceMedia_ignores_delete)
  have 5: "result_id r \<notin> deleteOnDelivery st \<longrightarrow>
          sentStore (messages_update st' us) (result_id r) = sentStore st' (result_id r) \<and>
          sentStore st' (result_id r) \<noteq> None"
    using 2 3 by (simp add: messages_update_store acked_def)
  from 1 2 3 4 5 show ?thesis by blast
qed

lemma view_once_sent_eq:
  "view_once_sent =
     (sample_gateway
        \<lparr>effects := [SockSendMessage ''226700000@s.whatsapp.net''
             (ViewOnceContent ImageKind (FromBase64 ''iVBORw0KGgo='') (Some ''look'') (Some ''image/png''))],
         sentStore := (sentStore sample_gateway)
            (Some ''V1'' \<mapsto> ViewOnceRecord ''226700000@s.whatsapp.net'' (Some ''look''))\<rparr>,
      (200, SentReply (Some ''V1'') ''226700000@s.whatsapp.net''))"
proof -
  have t: "toJid jidNormalizedUser ''226700000'' = ''226700000@s.whatsapp.net''" by code_simp
  have l: "last_segment ''data:image/png;base64,iVBORw0KGgo='' = ''iVBORw0KGgo=''" by code_simp
  have e: "effects sample_gateway = []" by (simp add: sample_gateway_def init_gateway_def)
  show ?thesis
    by (simp add: view_once_sent_def sendViewOnceMedia_def send_media_def media_content_def
        view_once_request_def engine_V1_def no_body_def body_or_empty_def truthy_def str_def
        startsWith_def result_id_def Let_def t l e)
qed

theorem view_once_never_armed_witness:
  "del view_once_request \<and>
   fst (snd view_once_sent) = 200 \<and>
   Some ''V1'' \<notin> deleteOnDelivery sample_gateway \<and>
   deleteOnDelivery (fst view_once_sent) = deleteOnDelivery sample_gateway \<and>
   sentStore (fst view_once_sent) (Some ''V1'') =
     Some (ViewOnceRecord ''226700000@s.whatsapp.net'' (Some ''look'')) \<and>
   sentStore (messages_update (fst view_once_sent) [ack ''V1'' 3]) (Some ''V1'') =
     Some (ViewOnceRecord ''226700000@s.whatsapp.net'' (Some ''look''))"
proof -
  have d: "del view_once_request" by (simp add: view_once_request_def)
  have r: "result_id engine_V1 = Some ''V1''" by (simp add: result_id_def engine_V1_def)
  have n: "Some ''V1'' \<notin> deleteOnDelivery sample_gateway"
    by (simp add: sample_gateway_def init_gateway_def)
  have h: "sendViewOnceMedia jidNormalizedUser sample_gateway (Some view_once_request)
     (FetchThrows []) engine_V1 = (fst view_once_sent, (200, snd (snd view_once_sent)))"
    unfolding view_once_sent_def [symmetric] by (simp add: view_once_sent_eq)
  have s: "sentStore (fst view_once_sent) (Some ''V1'') =
     Some (ViewOnceRecord ''226700000@s.whatsapp.net'' (Some ''look''))"
    by (simp add: view_once_sent_eq)
  from view_once_never_armed [OF h, of "[ack ''V1'' 3]"] r n
  have "deleteOnDelivery (fst view_once_sent) = deleteOnDelivery sample_gateway \<and>
    sentStore (messages_update (fst view_once_sent) [ack ''V1'' 3]) (Some ''V1'') =
      sentStore (fst view_once_sent) (Some ''V1'')" by simp
  with d n s show ?thesis by (simp add: view_once_sent_eq)
qed

section \<open>The connection manager: proofs\<close>

lemma reconnects_simps:
  "reconnects [] = []"
  "reconnects (xs @ ys) = reconnects xs @ reconnects ys"
  "reconnects (SockSendMessage to c # tr) = reconnects tr"
  "reconnects (FetchMedia url # tr) = reconnects tr"
  "reconnects (WebhookPost url p # tr) = reconnects tr"
  "reconnects (SaveState # tr) = reconnects tr"
  "reconnects (PoolQuery blob # tr) = reconnects tr"
  "reconnects (ConsoleError tag e # tr) = reconnects tr"
  "reconnects (SetTimeout t d # tr) = SetTimeout t d # reconnects tr"
  by (simp_all add: reconnects_def)

lemma saveStateAndDB_frame:
  "authenticated (saveStateAndDB p st io) = authenticated st \<and>
   connection (saveStateAndDB p st io) = connection st \<and>
   latestQRDataURL (saveStateAndDB p st io) = latestQRDataURL st \<and>
   sentStore (saveStateAndDB p st io) = sentStore st \<and>
   deleteOnDelivery (saveStateAndDB p st io) = deleteOnDelivery st \<and>
   reconnects (effects (saveStateAndDB p st io)) = reconnects (effects st)"
  by (simp add: saveStateAndDB_def saveSessionToDB_def auth_save_error_def Let_def
      reconnects_simps split: option.split)

lemma forward_frame:
  "authenticated (forward url st i) = authenticated st \<and>
   connection (forward url st i) = connection st \<and>
   latestQRDataURL (forward url st i) = latestQRDataURL st \<and>
   sentStore (forward url st i) = sentStore st \<and>
   deleteOnDelivery (forward url st i) = deleteOnDelivery st \<and>
   reconnects (effects (forward url st i)) = reconnects (effects st)"
  by (simp add: forward_def forward_failed_def Let_def reconnects_simps split: fetch_result.split)

lemma messages_upsert_frame:
  "authenticated (messages_upsert url st msgs) = authenticated st \<and>
   connection (messages_upsert url st msgs) = connection st \<and>
   latestQRDataURL (messages_upsert url st msgs) = latestQRDataURL st \<and>
   sentStore (messages_upsert url st msgs) = sentStore st \<and>
   deleteOnDelivery (messages_upsert url st msgs) = deleteOnDelivery st \<and>
   reconnects (effects (messages_upsert url st msgs)) = reconnects (effects st)"
  by (induction msgs arbitrary: st) (simp_all add: forward_frame)

lemma sendMessage_frame:
  "authenticated (fst (sendMessage N st b r)) = authenticated st \<and>
   connection (fst (sendMessage N st b r)) = connection st \<and>
   latestQRDataURL (fst (sendMessage N st b r)) = latestQRDataURL st \<and>
   reconnects (effects (fst (sendMessage N st b r))) = reconnects (effects st)"
  by (simp add: sendMessage_def Let_def reconnects_simps split: send_result.split)

lemma post_delete_frame:
  "authenticated (fst (post_delete st b)) = authenticated st \<and>
   connection (fst (post_delete st b)) = connection st \<and>
   latestQRDataURL (fst (post_delete st b)) = latestQRDataURL st \<and>
   effects (fst (post_delete st b)) = effects st"
  by (simp add: post_delete_def Let_def)

lemma send_media_frame:
  "authenticated (fst (send_media st b to buf r)) = authenticated st \<and>
   connection (fst (send_media st b to buf r)) = connection st \<and>
   latestQRDataURL (fst (send_media st b to buf r)) = latestQRDataURL st \<and>
   deleteOnDelivery (fst (send_media st b to buf r)) = deleteOnDelivery st \<and>
   reconnects (effects (fst (send_media st b to buf r))) = reconnects (effects st)"
  by (simp add: send_media_def Let_def reconnects_simps split: send_result.split)

lemma sendViewOnceMedia_frame:
  "authenticated (fst (sendViewOnceMedia N st b m r)) = authenticated st \<and>
   connection (fst (sendViewOnceMedia N st b m r)) = connection st \<and>
   latestQRDataURL (fst (sendViewOnceMedia N st b m r)) = latestQRDataURL st \<and>
   deleteOnDelivery (fst (sendViewOnceMedia N st b m r)) = deleteOnDelivery st \<and>
   reconnects (effects (fst (sendViewOnceMedia N st b m r))) = reconnects (effects st)"
proof -
  let ?x = "body_or_empty b"
  have s: "\<And>s to buf. authenticated s = authenticated st \<and> connection s = connection st \<and>
      latestQRDataURL s = latestQRDataURL st \<and> deleteOnDelivery s = deleteOnDelivery st \<and>
      reconnects (effects s) = reconnects (effects st) \<Longrightarrow>
      authenticated (fst (send_media s ?x to buf r)) = authenticated st \<and>
      connection (fst (send_media s ?x to buf r)) = connection st \<and>
      latestQRDataURL (fst (send_media s ?x to buf r)) = latestQRDataURL st \<and>
      deleteOnDelivery (fst (send_media s ?x to buf r)) = deleteOnDelivery st \<and>
      reconnects (effects (fst (send_media s ?x to buf r))) = reconnects (effects st)"
    by (simp add: send_media_frame)
  show ?thesis
    unfolding sendViewOnceMedia_def Let_def
    by (auto split: fetch_result.split simp: reconnects_simps intro!: s)
qed

lemma gateway_step_frame:
  assumes "\<not> is_connection_update ev"
  shows "authenticated (gateway_step E st ev) = authenticated st \<and>
   connection (gateway_step E st ev) = connection st \<and>
   latestQRDataURL (gateway_step E st ev) = latestQRDataURL st \<and>
   reconnects (effects (gateway_step E st ev)) = reconnects (effects st)"
proof (cases ev)
  case (ConnectionUpdate u)
  with assms show ?thesis by (simp add: is_connection_update_def)
next
  case (CredsUpdate io)
  then show ?thesis by (simp add: saveStateAndDB_frame)
next
  case (MessagesUpsert msgs)
  then show ?thesis by (simp add: messages_upsert_frame)
next
  case (MessagesUpdate us)
  then show ?thesis by (simp add: messages_update_frame)
next
  case GetAuth
  then show ?thesis by simp
next
  case (PostSendMessage b r)
  then show ?thesis by (simp add: sendMessage_frame)
next
  case (PostDelete b)
  then show ?thesis by (simp add: post_delete_frame)
next
  case (PostSendViewOnceMedia b m r)
  then show ?thesis by (simp add: sendViewOnceMedia_frame)
qed

lemma run_Nil: "run E st [] = st"
  by (simp add: run_def)

lemma run_Cons: "run E st (ev # evs) = run E (gateway_step E st ev) evs"
  by (simp add: run_def)

lemma run_snoc: "run E st (evs @ [ev]) = gateway_step E (run E st evs) ev"
  by (simp add: run_def)

lemma run_frame:
  assumes "\<forall>ev\<in>set evs. \<not> is_connection_update ev"
  shows "authenticated (run E st evs) = authenticated st \<and>
   connection (run E st evs) = connection st \<and>
   latestQRDataURL (run E st evs) = latestQRDataURL st \<and>
   reconnects (effects (run E st evs)) = reconnects (effects st)"
  using assms
proof (induction evs arbitrary: st)
  case Nil
  show ?case by (simp add: run_Nil)
next
  case (Cons ev evs)
  then have a: "\<not> is_connection_update ev" and b: "\<forall>ev\<in>set evs. \<not> is_connection_update ev"
    by simp_all
  show ?case
    unfolding run_Cons using Cons.IH [OF b, of "gateway_step E st ev"] gateway_step_frame [OF a, of E st]
    by simp
qed

lemma on_connection_artifact: "latestQRDataURL (on_connection st c s) = latestQRDataURL st"
  by (simp add: on_connection_def Let_def split: option.split)

lemma connection_update_artifact:
  "latestQRDataURL (on_connection_update R st u) =
     (case u_qr u of
        None \<Rightarrow> latestQRDataURL st
      | Some q \<Rightarrow> if q = [] then latestQRDataURL st
                  else (case R q of None \<Rightarrow> latestQRDataURL st | Some url \<Rightarrow> Some url))"
  by (simp add: on_connection_update_def on_qr_def on_connection_artifact split: option.split)

lemma run_artifact:
  "latestQRDataURL (run E st evs) = latest_artifact (env_toDataURL E) (latestQRDataURL st) evs"
proof (induction evs arbitrary: st)
  case Nil
  show ?case by (simp add: run_Nil)
next
  case (Cons ev evs)
  show ?case
  proof (cases "is_connection_update ev")
    case True
    then obtain u where "ev = ConnectionUpdate u"
      by (cases ev) (simp_all add: is_connection_update_def)
    then show ?thesis
      by (simp add: run_Cons Cons.IH connection_update_artifact)
  next
    case False
    then have "latestQRDataURL (gateway_step E st ev) = latestQRDataURL st"
      by (simp add: gateway_step_frame)
    with False show ?thesis
      by (cases ev) (simp_all add: run_Cons Cons.IH is_connection_update_def)
  qed
qed

text \<open>
  C2 (amended). In every reachable state, while \<open>authenticated\<close> is true \<open>GET /auth\<close>
  answers \<open>{authenticated: true, connection}\<close> and returns no pairing artifact; the stored
  artifact is the rendering of the most recent \<open>qr\<close> issued (absent before the first
  one), and the \<open>open\<close> event leaves it as it is.
\<close>

theorem artifact_hidden_while_authenticated:
  "(authenticated (run E init_gateway evs) \<longrightarrow>
      get_auth (run E init_gateway evs) = (200, AuthenticatedReply (connection (run E init_gateway evs))))
   \<and> latestQRDataURL (run E init_gateway evs) = latest_artifact (env_toDataURL E) None evs
   \<and> latestQRDataURL (gateway_step E st (ConnectionUpdate \<lparr>u_connection = Some ''open'', u_statusCode = s, u_qr = None\<rparr>))
       = latestQRDataURL st"
proof -
  have "latestQRDataURL init_gateway = None" by (simp add: init_gateway_def)
  then show ?thesis by (simp add: get_auth_def run_artifact connection_update_artifact)
qed

text \<open>The claim as stated fails: after a \<open>qr\<close> and the \<open>open\<close> event
  \<open>authenticated\<close> is true and the artifact is still stored, and after a later \<open>close\<close>
  \<open>GET /auth\<close> returns it.\<close>

theorem artifact_cleared_on_open_counterexample:
  "authenticated (run sample_env init_gateway [ev_qr ''abc'', ev_connection ''open'']) \<and>
   latestQRDataURL (run sample_env init_gateway [ev_qr ''abc'', ev_connection ''open''])
     = Some ''data:image/png;base64,abc'' \<and>
   get_auth (run sample_env init_gateway [ev_qr ''abc'', ev_connection ''open'', ev_close 401])
     = (200, UnauthenticatedReply (Some ''data:image/png;base64,abc''))"
  by (simp add: run_def sample_env_def init_gateway_def ev_qr_def ev_connection_def ev_close_def
      closed_with_def on_connection_update_def on_qr_def on_connection_def sample_toDataURL_def
      get_auth_def Let_def)

theorem artifact_hidden_while_authenticated_witness:
  "authenticated (run sample_env init_gateway [ev_qr ''abc'', ev_connection ''open'']) \<and>
   get_auth (run sample_env init_gateway [ev_qr ''abc'', ev_connection ''open''])
     = (200, AuthenticatedReply ''open'') \<and>
   latestQRDataURL (run sample_env init_gateway [ev_qr ''abc'', ev_connection ''open''])
     = Some ''data:image/png;base64,abc''"
proof -
  let ?evs = "[ev_qr ''abc'', ev_connection ''open'']"
  have a: "authenticated (run sample_env init_gateway ?evs)"
    "connection (run sample_env init_gateway ?evs) = ''open''"
    by (simp_all add: run_def sample_env_def init_gateway_def ev_qr_def ev_connection_def
        on_connection_update_def on_qr_def on_connection_def sample_toDataURL_def Let_def)
  have l: "latest_artifact (env_toDataURL sample_env) None ?evs = Some ''data:image/png;base64,abc''"
    by (simp add: sample_env_def ev_qr_def ev_connection_def sample_toDataURL_def)
  from artifact_hidden_while_authenticated [of sample_env ?evs] a l show ?thesis by simp
qed


lemma on_qr_cases:
  assumes "on_qr R st q = Some st1"
  shows "st1 = st \<or> (\<not> authenticated st1 \<and> connection st1 = ''connecting'' \<and> effects st1 = effects st)"
  using assms by (auto simp: on_qr_def split: option.splits if_splits)

lemma on_connection_not_close:
  assumes "authenticated st \<longrightarrow> connection st \<noteq> ''close''"
  shows "authenticated (on_connection st c s) \<longrightarrow> connection (on_connection st c s) \<noteq> ''close''"
  using assms by (simp add: on_connection_def Let_def split: option.split)

lemma on_connection_open:
  assumes "authenticated st \<longrightarrow> connection st = ''open''"
    and "\<not> authenticated st \<or> \<not> (case c of None \<Rightarrow> False | Some x \<Rightarrow> x \<noteq> [] \<and> x \<noteq> ''open'' \<and> x \<noteq> ''close'')"
  shows "authenticated (on_connection st c s) \<longrightarrow> connection (on_connection st c s) = ''open''"
  using assms by (auto simp add: on_connection_def Let_def split: option.splits)

lemma on_connection_update_not_close:
  assumes "authenticated st \<longrightarrow> connection st \<noteq> ''close''"
  shows "authenticated (on_connection_update R st u) \<longrightarrow> connection (on_connection_update R st u) \<noteq> ''close''"
proof (cases "on_qr R st (u_qr u)")
  case None
  then show ?thesis using assms by (simp add: on_connection_update_def)
next
  case (Some st1)
  from on_qr_cases [OF Some] assms have "authenticated st1 \<longrightarrow> connection st1 \<noteq> ''close''" by auto
  then show ?thesis using Some by (simp add: on_connection_update_def on_connection_not_close)
qed

lemma on_connection_update_open:
  assumes "authenticated st \<longrightarrow> connection st = ''open''"
    and "\<not> reports_other (ConnectionUpdate u) \<or> \<not> authenticated st"
  shows "authenticated (on_connection_update R st u) \<longrightarrow> connection (on_connection_update R st u) = ''open''"
proof (cases "on_qr R st (u_qr u)")
  case None
  then show ?thesis using assms by (simp add: on_connection_update_def)
next
  case (Some st1)
  from on_qr_cases [OF Some] assms(1) have 1: "authenticated st1 \<longrightarrow> connection st1 = ''open''" by auto
  from on_qr_cases [OF Some] assms(2)
  have 2: "\<not> authenticated st1 \<or>
     \<not> (case u_connection u of None \<Rightarrow> False | Some x \<Rightarrow> x \<noteq> [] \<and> x \<noteq> ''open'' \<and> x \<noteq> ''close'')"
    by (auto simp: reports_other_def)
  show ?thesis using Some on_connection_open [OF 1 2] by (simp add: on_connection_update_def)
qed

lemma gateway_step_not_close:
  assumes "authenticated st \<longrightarrow> connection st \<noteq> ''close''"
  shows "authenticated (gateway_step E st ev) \<longrightarrow> connection (gateway_step E st ev) \<noteq> ''close''"
proof (cases "is_connection_update ev")
  case True
  then obtain u where "ev = ConnectionUpdate u"
    by (cases ev) (simp_all add: is_connection_update_def)
  then show ?thesis using on_connection_update_not_close [OF assms] by simp
next
  case False
  then show ?thesis using assms by (simp add: gateway_step_frame)
qed

lemma gateway_step_open:
  assumes "authenticated st \<longrightarrow> connection st = ''open''"
    and "\<not> reports_other ev \<or> \<not> authenticated st"
  shows "authenticated (gateway_step E st ev) \<longrightarrow> connection (gateway_step E st ev) = ''open''"
proof (cases "is_connection_update ev")
  case True
  then obtain u where "ev = ConnectionUpdate u"
    by (cases ev) (simp_all add: is_connection_update_def)
  then show ?thesis using on_connection_update_open [OF assms(1)] assms(2) by simp
next
  case False
  then show ?thesis using assms by (simp add: gateway_step_frame)
qed

lemma run_not_close:
  assumes "authenticated st \<longrightarrow> connection st \<noteq> ''close''"
  shows "authenticated (run E st evs) \<longrightarrow> connection (run E st evs) \<noteq> ''close''"
  using assms
proof (induction evs arbitrary: st)
  case Nil
  then show ?case by (simp add: run_Nil)
next
  case (Cons ev evs)
  show ?case unfolding run_Cons
    by (rule Cons.IH) (rule gateway_step_not_close [OF Cons.prems])
qed

lemma run_open:
  assumes "authenticated st \<longrightarrow> connection st = ''open''" and "in_order E st evs"
  shows "authenticated (run E st evs) \<longrightarrow> connection (run E st evs) = ''open''"
  using assms
proof (induction evs arbitrary: st)
  case Nil
  then show ?case by (simp add: run_Nil)
next
  case (Cons ev evs)
  from Cons.prems(2) have a: "\<not> reports_other ev \<or> \<not> authenticated st"
    and b: "in_order E (gateway_step E st ev) evs" by simp_all
  show ?case unfolding run_Cons
    by (rule Cons.IH [OF gateway_step_open [OF Cons.prems(1) a] b])
qed

lemma run_pairing:
  assumes "env_toDataURL E = Some"
  shows "foldl on_connection_update_pairing st us = run E st (map ConnectionUpdate us)"
  using assms
  by (induction us arbitrary: st) (simp_all add: run_Nil run_Cons on_connection_update_pairing_def)

text \<open>
  C3 (amended). In every state reachable by a sequence of events in which a connection
  value other than \<open>open\<close> and \<open>close\<close> (such as \<open>connecting\<close>) is reported only while
  \<open>authenticated\<close> is false, \<open>authenticated\<close> implies \<open>connection = 'open'\<close>; in every
  reachable state whatever, \<open>authenticated\<close> implies \<open>connection \<noteq> 'close'\<close>. The handler of
  the pairing-code server runs as the same machine.
\<close>

theorem authenticated_connection_invariant:
  "(authenticated (run E init_gateway evs) \<longrightarrow> connection (run E init_gateway evs) \<noteq> ''close'')
   \<and> (in_order E init_gateway evs \<longrightarrow>
        authenticated (run E init_gateway evs) \<longrightarrow> connection (run E init_gateway evs) = ''open'')
   \<and> (env_toDataURL E = Some \<longrightarrow>
        foldl on_connection_update_pairing init_gateway us = run E init_gateway (map ConnectionUpdate us))"
proof -
  have i: "\<not> authenticated init_gateway" by (simp add: init_gateway_def)
  show ?thesis using i run_not_close [of init_gateway E evs] run_open [of init_gateway E evs]
      run_pairing [of E init_gateway us]
    by blast
qed

text \<open>The claim as stated fails on \<open>open\<close> followed by \<open>connecting\<close>.\<close>

theorem authenticated_implies_open_counterexample:
  "authenticated (run sample_env init_gateway [ev_connection ''open'', ev_connection ''connecting''])
   \<and> connection (run sample_env init_gateway [ev_connection ''open'', ev_connection ''connecting''])
       = ''connecting''
   \<and> connection (run sample_env init_gateway [ev_connection ''open'', ev_connection ''connecting''])
       \<noteq> ''open''"
  by (simp add: run_def sample_env_def init_gateway_def ev_connection_def
      on_connection_update_def on_qr_def on_connection_def Let_def)

theorem authenticated_connection_invariant_witness:
  "in_order sample_env init_gateway [ev_connection ''connecting'', ev_qr ''abc'', ev_connection ''open'']
   \<and> authenticated (run sample_env init_gateway
        [ev_connection ''connecting'', ev_qr ''abc'', ev_connection ''open''])
   \<and> connection (run sample_env init_gateway
        [ev_connection ''connecting'', ev_qr ''abc'', ev_connection ''open'']) = ''open''"
proof -
  let ?evs = "[ev_connection ''connecting'', ev_qr ''abc'', ev_connection ''open'']"
  have o: "in_order sample_env init_gateway ?evs"
    by (simp add: sample_env_def init_gateway_def ev_connection_def ev_qr_def reports_other_def
        on_connection_update_def on_qr_def on_connection_def sample_toDataURL_def Let_def)
  have a: "authenticated (run sample_env init_gateway ?evs)"
    by (simp add: run_def sample_env_def init_gateway_def ev_connection_def ev_qr_def
        on_connection_update_def on_qr_def on_connection_def sample_toDataURL_def Let_def)
  from authenticated_connection_invariant [of sample_env ?evs] o a show ?thesis by blast
qed

lemma on_connection_close:
  "authenticated (on_connection st (Some ''close'') s) = False \<and>
   connection (on_connection st (Some ''close'') s) = ''close'' \<and>
   effects (on_connection st (Some ''close'') s) =
     (if s = Some 401 then effects st else effects st @ [SetTimeout InitSocket 2000])"
  by (simp add: on_connection_def Let_def)

text \<open>
  C4. For every \<open>close\<close> event whose handler runs through: \<open>authenticated\<close> becomes
  false; with status code 401 nothing is scheduled; with any other reason one
  \<open>setTimeout(initSocket, 2000)\<close> is scheduled; and from then on, through every event that
  is not a connection update, \<open>authenticated\<close> stays false and no reconnect is added. The
  handler of the pairing-code server is the case \<open>R = Some\<close>.
\<close>

theorem close_schedules_reconnect_unless_401:
  assumes "u_connection u = Some ''close''" and "on_qr R st (u_qr u) \<noteq> None"
  shows "\<not> authenticated (on_connection_update R st u)
    \<and> connection (on_connection_update R st u) = ''close''
    \<and> (u_statusCode u = Some 401 \<longrightarrow> effects (on_connection_update R st u) = effects st)
    \<and> (u_statusCode u \<noteq> Some 401 \<longrightarrow>
         effects (on_connection_update R st u) = effects st @ [SetTimeout InitSocket 2000])
    \<and> ((\<forall>ev\<in>set evs. \<not> is_connection_update ev) \<longrightarrow>
         \<not> authenticated (run E (on_connection_update R st u) evs) \<and>
         reconnects (effects (run E (on_connection_update R st u) evs)) =
           reconnects (effects (on_connection_update R st u)))"
proof -
  from assms(2) obtain st1 where q: "on_qr R st (u_qr u) = Some st1" by blast
  from on_qr_cases [OF q] have e: "effects st1 = effects st" by auto
  have c: "on_connection_update R st u = on_connection st1 (Some ''close'') (u_statusCode u)"
    using q assms(1) by (simp add: on_connection_update_def)
  have 1: "\<not> authenticated (on_connection_update R st u)"
    and 2: "connection (on_connection_update R st u) = ''close''"
    and 3: "effects (on_connection_update R st u) =
      (if u_statusCode u = Some 401 then effects st else effects st @ [SetTimeout InitSocket 2000])"
    unfolding c using on_connection_close [of st1 "u_statusCode u"] e by simp_all
  have 4: "(\<forall>ev\<in>set evs. \<not> is_connection_update ev) \<longrightarrow>
         \<not> authenticated (run E (on_connection_update R st u) evs) \<and>
         reconnects (effects (run E (on_connection_update R st u) evs)) =
           reconnects (effects (on_connection_update R st u))"
    using run_frame [of evs E "on_connection_update R st u"] 1 by blast
  from 1 2 3 4 show ?thesis by simp
qed

theorem close_schedules_reconnect_unless_401_witness:
  "authenticated opened
   \<and> \<not> authenticated (on_connection_update sample_toDataURL opened (closed_with 401))
   \<and> effects (on_connection_update sample_toDataURL opened (closed_with 401)) = []
   \<and> effects (on_connection_update sample_toDataURL opened (closed_with 428)) = [SetTimeout InitSocket 2000]
   \<and> \<not> authenticated (run sample_env (on_connection_update sample_toDataURL opened (closed_with 401))
         [GetAuth, MessagesUpdate [ack ''A1'' 3], CredsUpdate sample_creds_io])
   \<and> reconnects (effects (run sample_env (on_connection_update sample_toDataURL opened (closed_with 401))
         [GetAuth, MessagesUpdate [ack ''A1'' 3], CredsUpdate sample_creds_io])) = []
   \<and> effects (on_connection_update_pairing opened (closed_with 401)) = []
   \<and> effects (on_connection_update_pairing opened (closed_with 428)) = [SetTimeout InitSocket 2000]"
proof -
  let ?evs = "[GetAuth, MessagesUpdate [ack ''A1'' 3], CredsUpdate sample_creds_io]"
  have o: "authenticated opened" "effects opened = []"
    by (simp_all add: opened_def sample_env_def init_gateway_def ev_connection_def
        on_connection_update_def on_qr_def on_connection_def Let_def)
  have h1: "u_connection (closed_with 401) = Some ''close''" "u_statusCode (closed_with 401) = Some 401"
    "on_qr sample_toDataURL opened (u_qr (closed_with 401)) \<noteq> None"
    by (simp_all add: closed_with_def on_qr_def)
  have h2: "u_connection (closed_with 428) = Some ''close''" "u_statusCode (closed_with 428) \<noteq> Some 401"
    "on_qr sample_toDataURL opened (u_qr (closed_with 428)) \<noteq> None"
    by (simp_all add: closed_with_def on_qr_def)
  have h3: "\<forall>ev\<in>set ?evs. \<not> is_connection_update ev"
    by (simp add: is_connection_update_def)
  from close_schedules_reconnect_unless_401 [OF h1(1) h1(3), of ?evs sample_env] h1(2) h3 o
  have a: "\<not> authenticated (on_connection_update sample_toDataURL opened (closed_with 401))
    \<and> effects (on_connection_update sample_toDataURL opened (closed_with 401)) = []
    \<and> \<not> authenticated (run sample_env (on_connection_update sample_toDataURL opened (closed_with 401)) ?evs)
    \<and> reconnects (effects (run sample_env (on_connection_update sample_toDataURL opened (closed_with 401)) ?evs)) = []"
    by (simp add: reconnects_simps)
  from close_schedules_reconnect_unless_401 [OF h2(1) h2(3), of ?evs sample_env] h2(2) o
  have b: "effects (on_connection_update sample_toDataURL opened (closed_with 428)) = [SetTimeout InitSocket 2000]"
    by simp
  have h4: "on_qr Some opened (u_qr (closed_with 401)) \<noteq> None"
    "on_qr Some opened (u_qr (closed_with 428)) \<noteq> None"
    by (simp_all add: closed_with_def on_qr_def)
  from close_schedules_reconnect_unless_401 [OF h1(1) h4(1), of ?evs sample_env] h1(2) o
  have c: "effects (on_connection_update_pairing opened (closed_with 401)) = []"
    by (simp add: on_connection_update_pairing_def)
  from close_schedules_reconnect_unless_401 [OF h2(1) h4(2), of ?evs sample_env] h2(2) o
  have d: "effects (on_connection_update_pairing opened (closed_with 428)) = [SetTimeout InitSocket 2000]"
    by (simp add: on_connection_update_pairing_def)
  from o a b c d show ?thesis by simp
qed

section \<open>The gateway API: proofs\<close>

text \<open>
  C8. For every \<open>POST /sendMessage\<close> request whose body lacks \<open>message\<close>, or lacks both
  \<open>number\<close> and \<open>jid\<close>, the handler answers 400 with a validation error and returns the
  state as it was: no \<open>sock.sendMessage\<close> call is recorded, and the sent store and the flag
  set are untouched. The handler of the pairing-code server does the same for a body that
  lacks \<open>number\<close> or \<open>message\<close>. A request that passes the validation makes one engine
  call.
\<close>

theorem sendMessage_rejects_missing_fields:
  "(\<not> truthy (message (body_or_empty b)) \<or>
      (\<not> truthy (number (body_or_empty b)) \<and> \<not> truthy (jid (body_or_empty b))) \<longrightarrow>
        sendMessage N st b r = (st, (400, ErrorReply (Message ''number/jid and message are required''))))
   \<and> (\<not> truthy (message x) \<or> \<not> truthy (number x) \<longrightarrow>
        sendMessage_pairing N st (Some x) r = (st, (400, ErrorReply (Message ''number and message required''))))
   \<and> (truthy (message (body_or_empty b)) \<and>
        (truthy (number (body_or_empty b)) \<or> truthy (jid (body_or_empty b))) \<longrightarrow>
        (\<exists>to. effects (fst (sendMessage N st b r)) =
           effects st @ [SockSendMessage to (TextContent (str (message (body_or_empty b))))]))"
  by (simp add: sendMessage_def sendMessage_pairing_def Let_def split: send_result.split)

theorem sendMessage_rejects_missing_fields_witness:
  "\<not> truthy (number (body_or_empty (Some (no_body\<lparr>message := Some ''hi''\<rparr>)))) \<and>
   \<not> truthy (jid (body_or_empty (Some (no_body\<lparr>message := Some ''hi''\<rparr>)))) \<and>
   sendMessage jidNormalizedUser sample_gateway (Some (no_body\<lparr>message := Some ''hi''\<rparr>))
       (SendResult (Some \<lparr>k_remoteJid = None, k_id = Some ''C3'', k_fromMe = Some True\<rparr>))
     = (sample_gateway, (400, ErrorReply (Message ''number/jid and message are required''))) \<and>
   sendMessage_pairing jidNormalizedUser sample_gateway (Some (no_body\<lparr>message := Some ''hi''\<rparr>))
       (SendResult (Some \<lparr>k_remoteJid = None, k_id = Some ''C3'', k_fromMe = Some True\<rparr>))
     = (sample_gateway, (400, ErrorReply (Message ''number and message required''))) \<and>
   effects (fst (sendMessage jidNormalizedUser sample_gateway
       (Some (no_body\<lparr>number := Some ''226700000'', message := Some ''hi'', del := True\<rparr>))
       (SendResult (Some \<lparr>k_remoteJid = None, k_id = Some ''C3'', k_fromMe = Some True\<rparr>))))
     = [SockSendMessage ''226700000@s.whatsapp.net'' (TextContent ''hi'')]"
proof -
  let ?b = "Some (no_body\<lparr>message := Some ''hi''\<rparr>)"
  let ?r = "SendResult (Some \<lparr>k_remoteJid = None, k_id = Some ''C3'', k_fromMe = Some True\<rparr>)"
  have h: "\<not> truthy (number (body_or_empty ?b))" "\<not> truthy (jid (body_or_empty ?b))"
    "\<not> truthy (number (no_body\<lparr>message := Some ''hi''\<rparr>))"
    by (simp_all add: truthy_def body_or_empty_def no_body_def)
  have t: "toJid jidNormalizedUser ''226700000'' = ''226700000@s.whatsapp.net''" by code_simp
  have e: "effects (fst (sendMessage jidNormalizedUser sample_gateway
       (Some (no_body\<lparr>number := Some ''226700000'', message := Some ''hi'', del := True\<rparr>)) ?r))
     = [SockSendMessage ''226700000@s.whatsapp.net'' (TextContent ''hi'')]"
    by (simp add: sendMessage_def Let_def truthy_def body_or_empty_def no_body_def str_def t
        sample_gateway_def init_gateway_def result_id_def)
  from sendMessage_rejects_missing_fields [of ?b jidNormalizedUser sample_gateway ?r "no_body\<lparr>message := Some ''hi''\<rparr>"] h e
  show ?thesis by simp
qed

section \<open>The inbound relay: proofs\<close>

lemma webhook_posts_simps:
  "webhook_posts [] = []"
  "webhook_posts (xs @ ys) = webhook_posts xs @ webhook_posts ys"
  "webhook_posts (WebhookPost url p # tr) = WebhookPost url p # webhook_posts tr"
  "webhook_posts (ConsoleError tag e # tr) = webhook_posts tr"
  by (simp_all add: webhook_posts_def)

lemma forward_posts:
  "webhook_posts (effects (forward url st i)) =
     webhook_posts (effects st) @
       (if from_me (in_msg i) \<or> url = [] then []
        else [WebhookPost url (Envelope (serializeMessage (in_now i) (in_msg i)))])"
  by (simp add: forward_def forward_failed_def Let_def webhook_posts_simps split: fetch_result.split)

lemma forward_pairing_posts:
  "webhook_posts (effects (forward_pairing url st i)) =
     webhook_posts (effects st) @
       (if from_me (in_msg i) \<or> url = [] then [] else [WebhookPost url (RawMessage (in_msg i))])"
  by (simp add: forward_pairing_def Let_def webhook_posts_simps split: fetch_result.split)

lemma messages_upsert_posts:
  "webhook_posts (effects (messages_upsert url st msgs)) =
     webhook_posts (effects st) @
       (if url = [] then []
        else map (\<lambda>i. WebhookPost url (Envelope (serializeMessage (in_now i) (in_msg i))))
               (filter (\<lambda>i. \<not> from_me (in_msg i)) msgs))"
  by (induction msgs arbitrary: st) (simp_all add: forward_posts)

lemma messages_upsert_pairing_posts:
  "webhook_posts (effects (messages_upsert_pairing url st msgs)) =
     webhook_posts (effects st) @
       (if url = [] then []
        else map (\<lambda>i. WebhookPost url (RawMessage (in_msg i)))
               (filter (\<lambda>i. \<not> from_me (in_msg i)) msgs))"
  by (induction msgs arbitrary: st) (simp_all add: forward_pairing_posts)

lemma forward_pairing_frame:
  "authenticated (forward_pairing url st i) = authenticated st \<and>
   connection (forward_pairing url st i) = connection st \<and>
   latestQRDataURL (forward_pairing url st i) = latestQRDataURL st \<and>
   sentStore (forward_pairing url st i) = sentStore st \<and>
   deleteOnDelivery (forward_pairing url st i) = deleteOnDelivery st"
  by (simp add: forward_pairing_def Let_def split: fetch_result.split)

lemma messages_upsert_pairing_frame:
  "authenticated (messages_upsert_pairing url st msgs) = authenticated st \<and>
   connection (messages_upsert_pairing url st msgs) = connection st \<and>
   latestQRDataURL (messages_upsert_pairing url st msgs) = latestQRDataURL st \<and>
   sentStore (messages_upsert_pairing url st msgs) = sentStore st \<and>
   deleteOnDelivery (messages_upsert_pairing url st msgs) = deleteOnDelivery st"
  by (induction msgs arbitrary: st) (simp_all add: forward_pairing_frame)

text \<open>
  C7. For every \<open>messages.upsert\<close> event the webhook POSTs issued are: none when no webhook
  URL is configured; otherwise exactly one for each message that is not \<open>fromMe\<close>, in order,
  and none for a message that is \<open>fromMe\<close>, whatever \<open>fetch\<close> answers. Nothing else of the
  state changes: the envelope is kept nowhere. The same holds in the pairing-code server.
\<close>

theorem inbound_forwarded_once_unless_own:
  "webhook_posts (effects (messages_upsert url st msgs)) =
     webhook_posts (effects st) @
       (if url = [] then []
        else map (\<lambda>i. WebhookPost url (Envelope (serializeMessage (in_now i) (in_msg i))))
               (filter (\<lambda>i. \<not> from_me (in_msg i)) msgs))
   \<and> webhook_posts (effects (messages_upsert_pairing url st msgs)) =
     webhook_posts (effects st) @
       (if url = [] then []
        else map (\<lambda>i. WebhookPost url (RawMessage (in_msg i)))
               (filter (\<lambda>i. \<not> from_me (in_msg i)) msgs))
   \<and> messages_upsert url st msgs = st\<lparr>effects := effects (messages_upsert url st msgs)\<rparr>
   \<and> messages_upsert_pairing url st msgs = st\<lparr>effects := effects (messages_upsert_pairing url st msgs)\<rparr>"
  by (simp add: messages_upsert_posts messages_upsert_pairing_posts messages_upsert_frame
      messages_upsert_pairing_frame)

theorem inbound_forwarded_once_unless_own_witness:
  "from_me (in_msg (sample_message True)) \<and> \<not> from_me (in_msg (sample_message False)) \<and>
   webhook_posts (effects (messages_upsert ''http://hook'' init_gateway
       [sample_message True, sample_message False])) =
     [WebhookPost ''http://hook'' (Envelope
        \<lparr>e_id = ''M1'', e_jid = ''226700000@s.whatsapp.net'', e_fromMe = False, e_pushName = ''Awa'',
         e_timestamp = 1700000000, e_type = ''conversation'', e_content = TextSummary ''salut''\<rparr>)] \<and>
   webhook_posts (effects (messages_upsert [] init_gateway
       [sample_message True, sample_message False])) = [] \<and>
   sentStore (messages_upsert ''http://hook'' init_gateway [sample_message True, sample_message False])
     = sentStore init_gateway"
proof -
  let ?msgs = "[sample_message True, sample_message False]"
  have f: "from_me (in_msg (sample_message True))" "\<not> from_me (in_msg (sample_message False))"
    by (simp_all add: from_me_def sample_message_def)
  have e: "serializeMessage (in_now (sample_message False)) (in_msg (sample_message False)) =
     \<lparr>e_id = ''M1'', e_jid = ''226700000@s.whatsapp.net'', e_fromMe = False, e_pushName = ''Awa'',
      e_timestamp = 1700000000, e_type = ''conversation'', e_content = TextSummary ''salut''\<rparr>"
    by (simp add: serializeMessage_def sample_message_def or_empty_def or_number_def from_me_def
        message_type_def message_content_def truthy_def str_def)
  have i: "webhook_posts (effects init_gateway) = []"
    by (simp add: init_gateway_def webhook_posts_simps)
  have a: "webhook_posts (effects (messages_upsert ''http://hook'' init_gateway ?msgs)) =
     [WebhookPost ''http://hook'' (Envelope (serializeMessage (in_now (sample_message False))
        (in_msg (sample_message False))))]"
    using inbound_forwarded_once_unless_own [of "''http://hook''" init_gateway ?msgs] f i by simp
  have b: "webhook_posts (effects (messages_upsert [] init_gateway ?msgs)) = []"
    using inbound_forwarded_once_unless_own [of "[]" init_gateway ?msgs] i by simp
  have c: "sentStore (messages_upsert ''http://hook'' init_gateway ?msgs) = sentStore init_gateway"
    using messages_upsert_frame [of "''http://hook''" init_gateway ?msgs] by blast
  from f a b c e show ?thesis by simp
qed

section \<open>The auth store adapter: proofs\<close>

lemma storage_calls_simps:
  "storage_calls [] = []"
  "storage_calls (xs @ ys) = storage_calls xs @ storage_calls ys"
  "storage_calls (SaveState # tr) = SaveState # storage_calls tr"
  "storage_calls (PoolQuery blob # tr) = PoolQuery blob # storage_calls tr"
  "storage_calls (ConsoleError tag e # tr) = storage_calls tr"
  by (simp_all add: storage_calls_def)

lemma remote_writes_simps:
  "remote_writes [] = []"
  "remote_writes (xs @ ys) = remote_writes xs @ remote_writes ys"
  "remote_writes (SaveState # tr) = remote_writes tr"
  "remote_writes (PoolQuery blob # tr) = PoolQuery blob # remote_writes tr"
  "remote_writes (ConsoleError tag e # tr) = remote_writes tr"
  by (simp_all add: remote_writes_def)

lemma remote_writes_storage_calls: "remote_writes (storage_calls tr) = remote_writes tr"
  by (induction tr) (auto simp: remote_writes_def storage_calls_def split: effect.splits)

lemma saveStateAndDB_storage:
  "storage_calls (effects (saveStateAndDB p st io)) = storage_calls (effects st) @ persisted p io"
  by (simp add: saveStateAndDB_def saveSessionToDB_def auth_save_error_def persisted_def Let_def
      storage_calls_simps split: option.split)

lemma creds_update_pairing_storage:
  "storage_calls (effects (creds_update_pairing p st io)) = storage_calls (effects st) @ persisted p io"
  by (simp add: creds_update_pairing_def saveSessionToDB_def persisted_def Let_def
      storage_calls_simps split: option.split)

lemma foldl_storage:
  assumes "\<And>st io. storage_calls (effects (h st io)) = storage_calls (effects st) @ persisted p io"
  shows "storage_calls (effects (foldl h st ios)) = storage_calls (effects st) @ concat (map (persisted p) ios)"
  by (induction ios arbitrary: st) (simp_all add: assms)

lemma remote_writes_persisted_all:
  assumes "p" and "\<forall>io\<in>set ios. saveState_ok io \<and> read_blob io \<noteq> None"
  shows "length (remote_writes (concat (map (persisted p) ios))) = length ios"
  using assms(2)
proof (induction ios)
  case Nil
  show ?case by (simp add: remote_writes_simps)
next
  case (Cons io ios)
  then obtain blob where "saveState_ok io" "read_blob io = Some blob" by auto
  with assms(1) have "remote_writes (persisted p io) = [PoolQuery blob]"
    by (simp add: persisted_def remote_writes_simps)
  with Cons show ?case by (simp add: remote_writes_simps)
qed

lemma remote_writes_persisted_none: "remote_writes (concat (map (persisted False) ios)) = []"
  by (induction ios) (simp_all add: persisted_def remote_writes_simps)

text \<open>
  C6 (amended). For every sequence of credential-change events the storage calls are, event
  by event and in this order, the local write and then, only when a remote store is
  configured and the local write and the read-back succeeded, exactly one remote upsert.
  With a configured store and N events whose local write and read-back succeed this gives N
  remote writes; with no configured store it gives none. The same holds in the pairing-code
  server.
\<close>

theorem credential_change_storage_calls:
  "storage_calls (effects (foldl (saveStateAndDB pool) st ios)) =
     storage_calls (effects st) @ concat (map (persisted pool) ios)
   \<and> storage_calls (effects (foldl (creds_update_pairing pool) st ios)) =
     storage_calls (effects st) @ concat (map (persisted pool) ios)
   \<and> (pool \<and> (\<forall>io\<in>set ios. saveState_ok io \<and> read_blob io \<noteq> None) \<longrightarrow>
        length (remote_writes (effects (foldl (saveStateAndDB pool) st ios))) =
          length (remote_writes (effects st)) + length ios)
   \<and> (\<not> pool \<longrightarrow>
        remote_writes (effects (foldl (saveStateAndDB pool) st ios)) = remote_writes (effects st))"
proof -
  have 1: "storage_calls (effects (foldl (saveStateAndDB pool) st ios)) =
     storage_calls (effects st) @ concat (map (persisted pool) ios)"
    by (rule foldl_storage) (rule saveStateAndDB_storage)
  have 2: "storage_calls (effects (foldl (creds_update_pairing pool) st ios)) =
     storage_calls (effects st) @ concat (map (persisted pool) ios)"
    by (rule foldl_storage) (rule creds_update_pairing_storage)
  have "remote_writes (storage_calls (effects (foldl (saveStateAndDB pool) st ios))) =
     remote_writes (storage_calls (effects st) @ concat (map (persisted pool) ios))"
    by (simp only: 1)
  then have r: "remote_writes (effects (foldl (saveStateAndDB pool) st ios)) =
     remote_writes (effects st) @ remote_writes (concat (map (persisted pool) ios))"
    by (simp only: remote_writes_storage_calls remote_writes_simps(2))
  have 3: "pool \<and> (\<forall>io\<in>set ios. saveState_ok io \<and> read_blob io \<noteq> None) \<longrightarrow>
        length (remote_writes (effects (foldl (saveStateAndDB pool) st ios))) =
          length (remote_writes (effects st)) + length ios"
  proof
    assume a: "pool \<and> (\<forall>io\<in>set ios. saveState_ok io \<and> read_blob io \<noteq> None)"
    then have "length (remote_writes (concat (map (persisted pool) ios))) = length ios"
      by (intro remote_writes_persisted_all) simp_all
    then show "length (remote_writes (effects (foldl (saveStateAndDB pool) st ios))) =
          length (remote_writes (effects st)) + length ios"
      by (simp only: r length_append)
  qed
  have 4: "\<not> pool \<longrightarrow>
        remote_writes (effects (foldl (saveStateAndDB pool) st ios)) = remote_writes (effects st)"
  proof
    assume "\<not> pool"
    then have "remote_writes (concat (map (persisted pool) ios)) = []"
      using remote_writes_persisted_none [of ios] by simp
    then show "remote_writes (effects (foldl (saveStateAndDB pool) st ios)) = remote_writes (effects st)"
      by (simp only: r append_Nil2)
  qed
  from 1 2 3 4 show ?thesis by blast
qed

text \<open>The claim as stated fails when \<open>DATABASE_URL\<close> is not set: one event, one local
  write, no remote write.\<close>

theorem credential_change_remote_write_counterexample:
  "effects (foldl (saveStateAndDB False) init_gateway [sample_creds_io]) = [SaveState]
   \<and> length (remote_writes (effects (foldl (saveStateAndDB False) init_gateway [sample_creds_io])))
       \<noteq> length [sample_creds_io]"
  by (simp add: saveStateAndDB_def saveSessionToDB_def sample_creds_io_def init_gateway_def
      remote_writes_simps Let_def)

theorem credential_change_storage_calls_witness:
  "saveState_ok sample_creds_io \<and> read_blob sample_creds_io = Some ''{}''
   \<and> storage_calls (effects (foldl (saveStateAndDB True) init_gateway
        [sample_creds_io, sample_creds_io\<lparr>query_ok := False\<rparr>]))
       = [SaveState, PoolQuery ''{}'', SaveState, PoolQuery ''{}'']
   \<and> length (remote_writes (effects (foldl (saveStateAndDB True) init_gateway
        [sample_creds_io, sample_creds_io\<lparr>query_ok := False\<rparr>]))) = 2"
proof -
  let ?ios = "[sample_creds_io, sample_creds_io\<lparr>query_ok := False\<rparr>]"
  let ?st = "foldl (saveStateAndDB True) init_gateway ?ios"
  have h: "\<forall>io\<in>set ?ios. saveState_ok io \<and> read_blob io \<noteq> None"
    by (simp add: sample_creds_io_def)
  have p: "concat (map (persisted True) ?ios) = [SaveState, PoolQuery ''{}'', SaveState, PoolQuery ''{}'']"
    by (simp add: persisted_def sample_creds_io_def)
  have i: "storage_calls (effects init_gateway) = []" "remote_writes (effects init_gateway) = []"
    by (simp_all add: init_gateway_def storage_calls_simps remote_writes_simps)
  from credential_change_storage_calls [of True init_gateway ?ios]
  have a: "storage_calls (effects ?st) = storage_calls (effects init_gateway) @ concat (map (persisted True) ?ios)"
    and b: "True \<and> (\<forall>io\<in>set ?ios. saveState_ok io \<and> read_blob io \<noteq> None) \<longrightarrow>
        length (remote_writes (effects ?st)) = length (remote_writes (effects init_gateway)) + length ?ios"
    by blast+
  from a have a': "storage_calls (effects ?st) = [SaveState, PoolQuery ''{}'', SaveState, PoolQuery ''{}'']"
    by (simp only: p i append_Nil)
  from b h have "length (remote_writes (effects ?st)) = length (remote_writes (effects init_gateway)) + length ?ios"
    by blast
  then have b': "length (remote_writes (effects ?st)) = 2"
    by (simp only: i) simp
  have c: "saveState_ok sample_creds_io \<and> read_blob sample_creds_io = Some ''{}''"
    by (simp add: sample_creds_io_def)
  from c a' b' show ?thesis by blast
qed

section \<open>Destination normalisation: proofs\<close>

lemma trim_id: "trimmed s \<Longrightarrow> trim s = s"
  by (metis dropWhile_eq_self_iff hd_rev rev.simps(1) rev_rev_ident trim_def trimmed_def)

lemma trimmed_trim: "trimmed (trim s)"
proof (cases "trim s = []")
  case True
  then show ?thesis by (simp add: trimmed_def)
next
  case False
  define a where "a = dropWhile is_space s"
  define b where "b = dropWhile is_space (rev a)"
  have t: "trim s = rev b" by (simp add: trim_def a_def b_def)
  with False have bne: "b \<noteq> []" by simp
  then have hb: "\<not> is_space (hd b)" unfolding b_def by (rule hd_dropWhile)
  from bne have ane: "a \<noteq> []" unfolding b_def by auto
  then have ha: "\<not> is_space (hd a)" unfolding a_def by (rule hd_dropWhile)
  from bne obtain x where x: "x \<in> set (rev a)" "\<not> is_space x"
    unfolding b_def by (metis dropWhile_eq_Nil_conv)
  then have "last b = last (rev a)" unfolding b_def by (rule dropWhile_last)
  with ane have lb: "last b = hd a" by (simp add: last_rev)
  have "hd (rev b) = last b" using bne by (simp add: hd_rev)
  moreover have "last (rev b) = hd b" using bne by (simp add: last_rev)
  ultimately show ?thesis using ha hb lb t by (simp add: trimmed_def)
qed

lemma trim_trim: "trim (trim s) = trim s"
  by (rule trim_id) (rule trimmed_trim)

lemma digit_not_space: "is_digit c \<Longrightarrow> \<not> is_space c"
  by (auto simp: is_digit_def is_space_def)

lemma trimmed_digits_suffix: "trimmed (filter is_digit r @ ''@s.whatsapp.net'')"
proof (cases "filter is_digit r")
  case Nil
  then show ?thesis by (simp add: trimmed_def is_space_def)
next
  case (Cons c cs)
  then have "is_digit c" by (metis filter_eq_Cons_iff)
  then have "\<not> is_space c" by (rule digit_not_space)
  moreover have "\<not> is_space (CHR ''t'')" by (simp add: is_space_def)
  ultimately show ?thesis using Cons by (simp add: trimmed_def)
qed

lemma jidDecode_split:
  assumes "CHR ''@'' \<notin> set u"
  shows "jidDecode (u @ CHR ''@'' # sv) = Some (user_part u, sv)"
proof -
  have n: "\<And>c. c \<in> set u \<Longrightarrow> c \<noteq> CHR ''@''" using assms by blast
  have 1: "takeWhile (\<lambda>c. c \<noteq> CHR ''@'') (u @ CHR ''@'' # sv) = u"
    using n by (simp add: takeWhile_append2)
  have 2: "dropWhile (\<lambda>c. c \<noteq> CHR ''@'') (u @ CHR ''@'' # sv) = CHR ''@'' # sv"
    using n by (simp add: dropWhile_append2)
  have 3: "CHR ''@'' \<in> set (u @ CHR ''@'' # sv)" by simp
  show ?thesis
    unfolding jidDecode_def Let_def 1 2 user_part_def using 3 by simp
qed

lemma normalized_split:
  assumes "CHR ''@'' \<notin> set u"
  shows "jidNormalizedUser (u @ CHR ''@'' # sv) = user_part u @ CHR ''@'' # server_part sv"
  unfolding jidNormalizedUser_def jidDecode_split [OF assms]
  by (simp add: jidEncode_def server_part_def)

lemma user_part_chars:
  assumes "c \<in> set (user_part u)"
  shows "c \<in> set u" and "c \<noteq> CHR ''_''" and "c \<noteq> CHR '':''"
proof -
  from assms have a: "c \<in> set (takeWhile (\<lambda>c. c \<noteq> CHR '':'') u)" and b: "c \<noteq> CHR ''_''"
    unfolding user_part_def by (auto dest: set_takeWhileD)
  from a show "c \<in> set u" and "c \<noteq> CHR '':''" by (auto dest: set_takeWhileD)
  from b show "c \<noteq> CHR ''_''" .
qed

lemma user_part_fixed:
  assumes "\<And>c. c \<in> set u \<Longrightarrow> c \<noteq> CHR ''_'' \<and> c \<noteq> CHR '':''"
  shows "user_part u = u"
proof -
  have a: "takeWhile (\<lambda>c. c \<noteq> CHR '':'') u = u"
    using assms by (simp add: takeWhile_eq_all_conv)
  have b: "takeWhile (\<lambda>c. c \<noteq> CHR ''_'') u = u"
    using assms by (simp add: takeWhile_eq_all_conv)
  show ?thesis by (simp only: user_part_def a b)
qed

lemma user_part_idem: "user_part (user_part u) = user_part u"
  by (rule user_part_fixed) (simp add: user_part_chars)

lemma server_part_idem: "server_part (server_part sv) = server_part sv"
  by (simp add: server_part_def)

lemma hd_user_part: "user_part u \<noteq> [] \<Longrightarrow> hd (user_part u) = hd u"
  unfolding user_part_def
  by (metis hd_append2 takeWhile_dropWhile_id takeWhile_eq_Nil_iff)

lemma last_server_part: "sv \<noteq> [] \<Longrightarrow> \<not> is_space (last sv) \<Longrightarrow> \<not> is_space (last (server_part sv))"
  by (simp add: server_part_def is_space_def)

lemma trimmed_normalized:
  assumes "trimmed (u @ CHR ''@'' # sv)"
  shows "trimmed (user_part u @ CHR ''@'' # server_part sv)"
proof -
  have at: "\<not> is_space (CHR ''@'')" by (simp add: is_space_def)
  have h: "\<not> is_space (hd (user_part u @ CHR ''@'' # server_part sv))"
  proof (cases "user_part u = []")
    case True
    then show ?thesis using at by simp
  next
    case False
    then have "u \<noteq> []" by (auto simp: user_part_def)
    with assms have "\<not> is_space (hd u)" by (simp add: trimmed_def)
    with False show ?thesis by (simp add: hd_user_part)
  qed
  have l: "\<not> is_space (last (user_part u @ CHR ''@'' # server_part sv))"
  proof (cases "sv = []")
    case True
    then show ?thesis using at by (simp add: server_part_def)
  next
    case False
    with assms have "\<not> is_space (last sv)" by (simp add: trimmed_def)
    with False have "\<not> is_space (last (server_part sv))" by (rule last_server_part)
    moreover from False have "server_part sv \<noteq> []" by (simp add: server_part_def)
    ultimately show ?thesis by simp
  qed
  from h l show ?thesis by (simp add: trimmed_def)
qed

lemma trim_fixed_trimmed: "trim s = s \<Longrightarrow> trimmed s"
  by (metis trimmed_trim)

lemma digit_not_separator:
  "is_digit c \<Longrightarrow> c \<noteq> CHR ''@'' \<and> c \<noteq> CHR ''_'' \<and> c \<noteq> CHR '':''"
  by (auto simp: is_digit_def)

lemma normalized_digits:
  assumes d: "\<forall>c\<in>set d. is_digit c"
  shows "jidNormalizedUser (d @ ''@s.whatsapp.net'') = d @ ''@s.whatsapp.net''"
proof -
  have 1: "CHR ''@'' \<notin> set d" using d digit_not_separator by blast
  have 2: "user_part d = d"
    by (rule user_part_fixed) (use d digit_not_separator in blast)
  have 3: "server_part ''s.whatsapp.net'' = ''s.whatsapp.net''" by (simp add: server_part_def)
  have "jidNormalizedUser (d @ CHR ''@'' # ''s.whatsapp.net'') = d @ CHR ''@'' # ''s.whatsapp.net''"
    by (simp only: normalized_split [OF 1] 2 3)
  then show ?thesis by simp
qed

lemma normalized_address:
  assumes "CHR ''@'' \<in> set r" and "trim r = r"
  shows "CHR ''@'' \<in> set (jidNormalizedUser r)"
    and "trim (jidNormalizedUser r) = jidNormalizedUser r"
    and "jidNormalizedUser (jidNormalizedUser r) = jidNormalizedUser r"
proof -
  from split_list_first [OF assms(1)] obtain u sv
    where r: "r = u @ CHR ''@'' # sv" and u: "CHR ''@'' \<notin> set u" by blast
  have n: "jidNormalizedUser r = user_part u @ CHR ''@'' # server_part sv"
    unfolding r by (rule normalized_split [OF u])
  have u': "CHR ''@'' \<notin> set (user_part u)" using u user_part_chars(1) by blast
  show "CHR ''@'' \<in> set (jidNormalizedUser r)" by (simp only: n) simp
  have "trimmed (u @ CHR ''@'' # sv)" using assms(2) r trim_fixed_trimmed by blast
  then have "trimmed (user_part u @ CHR ''@'' # server_part sv)" by (rule trimmed_normalized)
  then have "trim (user_part u @ CHR ''@'' # server_part sv) = user_part u @ CHR ''@'' # server_part sv"
    by (rule trim_id)
  then show "trim (jidNormalizedUser r) = jidNormalizedUser r" by (simp only: n)
  have "jidNormalizedUser (user_part u @ CHR ''@'' # server_part sv) =
        user_part (user_part u) @ CHR ''@'' # server_part (server_part sv)"
    by (rule normalized_split [OF u'])
  then show "jidNormalizedUser (jidNormalizedUser r) = jidNormalizedUser r"
    by (simp only: n user_part_idem server_part_idem)
qed

lemma jid_contract_library: "jid_contract jidNormalizedUser"
  unfolding jid_contract_def
  using normalized_address normalized_digits by blast

text \<open>
  C9. For every destination input \<open>x\<close>, a raw digit string and an already-qualified
  address with an \<open>@\<close> among them, \<open>toJid\<close> is idempotent:
  \<open>toJid (toJid x) = toJid x\<close>, for every \<open>jidNormalizedUser\<close> that meets the contract
  of the library's function.
\<close>

theorem toJid_idempotent:
  assumes "jid_contract N"
  shows "toJid N (toJid N x) = toJid N x"
proof (cases "CHR ''@'' \<in> set (trim x)")
  case True
  have tr: "trim (trim x) = trim x" by (rule trim_trim)
  from assms True tr have c: "CHR ''@'' \<in> set (N (trim x))" "trim (N (trim x)) = N (trim x)"
    "N (N (trim x)) = N (trim x)"
    unfolding jid_contract_def by blast+
  have "toJid N x = N (trim x)" using True by (simp add: toJid_def)
  moreover have "toJid N (N (trim x)) = N (N (trim x))" using c by (simp add: toJid_def)
  ultimately show ?thesis using c by simp
next
  case False
  define d where "d = filter is_digit (trim x)"
  have dig: "\<forall>c\<in>set d. is_digit c" by (simp add: d_def)
  have t: "toJid N x = d @ ''@s.whatsapp.net''" using False by (simp add: toJid_def d_def)
  have "trim (d @ ''@s.whatsapp.net'') = d @ ''@s.whatsapp.net''"
    unfolding d_def by (rule trim_id) (rule trimmed_digits_suffix)
  then have "toJid N (d @ ''@s.whatsapp.net'') = N (d @ ''@s.whatsapp.net'')"
    by (simp add: toJid_def)
  also have "\<dots> = d @ ''@s.whatsapp.net''"
    using assms dig unfolding jid_contract_def by blast
  finally show ?thesis using t by simp
qed

theorem toJid_idempotent_witness:
  "jid_contract jidNormalizedUser \<and>
   toJid jidNormalizedUser '' 22670:3@c.us '' = ''22670@s.whatsapp.net'' \<and>
   toJid jidNormalizedUser (toJid jidNormalizedUser '' 22670:3@c.us '') =
     toJid jidNormalizedUser '' 22670:3@c.us ''"
proof (intro conjI)
  show "jid_contract jidNormalizedUser" by (rule jid_contract_library)
  show "toJid jidNormalizedUser '' 22670:3@c.us '' = ''22670@s.whatsapp.net''" by code_simp
  show "toJid jidNormalizedUser (toJid jidNormalizedUser '' 22670:3@c.us '') =
     toJid jidNormalizedUser '' 22670:3@c.us ''"
    by (rule toJid_idempotent [OF jid_contract_library])
qed

end
